theory Spec2Isabelle
  imports Complex_Main
begin

section \<open>Tensors, errors and library primitives\<close>

text \<open>
  The model of \<^verbatim>\<open>src/quant_model.py\<close>. Tensor entries are real numbers (exact
  arithmetic: no rounding, no NaN); a tensor is a nested list, outermost axis first.
  The one non-finite value the source writes, \<^verbatim>\<open>float("-inf")\<close> in the attention
  bias, is kept as a value of its own (type \<open>xreal\<close> below).
\<close>

type_synonym vec = "real list"
type_synonym mat = "real list list"
type_synonym tensor3 = "real list list list"
type_synonym tensor4 = "real list list list list"

datatype error =
    AssertionError string
  | NotImplementedError string
  | RuntimeError string
  | IndexError string
  | TypeError string
  | AttributeError string

section \<open>AlphaInit: the lazily initialised scale parameter\<close>

text \<open>
  \<^verbatim>\<open>class AlphaInit(nn.Parameter)\<close>: the parameter's \<^verbatim>\<open>data\<close> and the flag
  \<^verbatim>\<open>initialized\<close> that \<^verbatim>\<open>__init__\<close> sets to \<^verbatim>\<open>False\<close>.
\<close>

record AlphaInit =
  data :: vec
  initialized :: bool

definition AlphaInit_init :: "vec \<Rightarrow> AlphaInit" where
  "AlphaInit_init tensor = \<lparr>data = tensor, initialized = False\<rparr>"

text \<open>
  \<^verbatim>\<open>_initialize\<close>: the assertion comes first, so a failing call changes nothing.
\<close>

definition initialize :: "AlphaInit \<Rightarrow> vec \<Rightarrow> error + AlphaInit" where
  "initialize self init_tensor =
     (if initialized self then Inl (AssertionError ''already initialized.'')
      else Inr (self\<lparr>data := init_tensor, initialized := True\<rparr>))"

text \<open>
  \<^verbatim>\<open>tensor.abs().view(-1, size).mean(dim=0)\<close>: the argument is given as its rows,
  each of width \<open>size\<close>; the mean runs over the rows, one value per channel.
\<close>

definition abs_mean_dim0 :: "nat \<Rightarrow> mat \<Rightarrow> vec" where
  "abs_mean_dim0 sz rows =
     map (\<lambda>c. (\<Sum>r\<leftarrow>rows. \<bar>r ! c\<bar>) / real (length rows)) [0..<sz]"

definition initialize_wrapper :: "AlphaInit \<Rightarrow> mat \<Rightarrow> error + AlphaInit" where
  "initialize_wrapper self tensor =
     (let sz = length (data self);
          init_val = map (\<lambda>m. 4 * m) (abs_mean_dim0 sz tensor)
      in initialize self init_val)"

section \<open>The spiking activation\<close>

text \<open>
  \<^verbatim>\<open>act_heaveside(scale)._uq\<close>. The input is seen as rows over the channel axis
  (the last axis); \<^verbatim>\<open>alpha\<close> and \<^verbatim>\<open>beta\<close> broadcast over the rows.
  \<^verbatim>\<open>forward\<close> returns the output, the tensors saved for \<^verbatim>\<open>backward\<close> and the
  parameter, which the first call initialises.
\<close>

definition sub_beta :: "vec \<Rightarrow> mat \<Rightarrow> mat" where
  "sub_beta beta x = map (\<lambda>row. map2 (\<lambda>v b. v - b) row beta) x"

definition positive_float :: "mat \<Rightarrow> mat" where
  "positive_float y = map (map (\<lambda>v. if v > 0 then 1 else 0)) y"

definition mul_alpha :: "vec \<Rightarrow> mat \<Rightarrow> mat" where
  "mul_alpha alpha p = map (\<lambda>row. map2 (\<lambda>a v. a * v) alpha row) p"

definition uq_forward :: "mat \<Rightarrow> AlphaInit \<Rightarrow> vec \<Rightarrow> error + (mat \<times> (mat \<times> vec) \<times> AlphaInit)" where
  "uq_forward x alpha beta =
     (let y = sub_beta beta x;
          positive = positive_float y
      in case (if \<not> initialized alpha then initialize_wrapper alpha x else Inr alpha) of
           Inl e \<Rightarrow> Inl e
         | Inr alpha' \<Rightarrow> Inr (mul_alpha (data alpha') positive, (y, data alpha'), alpha'))"

text \<open>
  \<^verbatim>\<open>backward\<close>, entry by entry: \<open>a\<close> is the channel's \<^verbatim>\<open>alpha\<close>, \<open>y\<close> the saved
  \<^verbatim>\<open>x - beta\<close>, \<open>g\<close> the incoming gradient.
\<close>

definition alpha_d :: "real \<Rightarrow> real" where
  "alpha_d y = 1 / pi * arctan y + 1 / 2"

definition arctan_d :: "real \<Rightarrow> real \<Rightarrow> real" where
  "arctan_d scale y = 1 / pi * scale / ((scale * y)\<^sup>2 + 1)"

definition ew3 :: "(real \<Rightarrow> real \<Rightarrow> real \<Rightarrow> real) \<Rightarrow> vec \<Rightarrow> mat \<Rightarrow> mat \<Rightarrow> mat" where
  "ew3 f alpha y g =
     map (\<lambda>(yrow, grow). map (\<lambda>(a, yv, gv). f a yv gv) (zip alpha (zip yrow grow))) (zip y g)"

definition uq_backward :: "real \<Rightarrow> (mat \<times> vec) \<Rightarrow> mat \<Rightarrow> mat \<times> mat \<times> mat" where
  "uq_backward scale ctx grad_output =
     (case ctx of (y, alpha) \<Rightarrow>
        (let grad_alpha = ew3 (\<lambda>a yv gv. alpha_d yv * gv) alpha y grad_output;
             grad_beta = ew3 (\<lambda>a yv gv. - a * arctan_d scale yv * gv) alpha y grad_output;
             grad_input = ew3 (\<lambda>a yv gv. a * arctan_d scale yv * gv) alpha y grad_output
         in (grad_input, grad_alpha, grad_beta)))"

text \<open>
  The gradients \<^verbatim>\<open>backward\<close> returns for \<^verbatim>\<open>alpha\<close> and \<^verbatim>\<open>beta\<close> have the shape of
  the input; the autograd engine of the tensor library sums such a gradient over the
  broadcast (batch) axes down to the parameter's shape.
\<close>

definition sum_to_size :: "nat \<Rightarrow> mat \<Rightarrow> vec" where
  "sum_to_size sz g = map (\<lambda>c. \<Sum>r\<leftarrow>g. r ! c) [0..<sz]"

text \<open>\<^verbatim>\<open>class ParamHeaveside\<close>: threshold zeros, scale ones, sharpness 4.\<close>

record ParamHeaveside =
  zero_point :: vec
  embed_scale :: AlphaInit

definition ParamHeaveside_init :: "nat \<Rightarrow> ParamHeaveside" where
  "ParamHeaveside_init sz =
     \<lparr>zero_point = replicate sz 0, embed_scale = AlphaInit_init (replicate sz 1)\<rparr>"

definition heaveside_scale :: real where
  "heaveside_scale = 4"

definition ParamHeaveside_forward :: "ParamHeaveside \<Rightarrow> mat \<Rightarrow> error + (mat \<times> ParamHeaveside)" where
  "ParamHeaveside_forward self x =
     (case uq_forward x (embed_scale self) (zero_point self) of
        Inl e \<Rightarrow> Inl e
      | Inr (out, ctx, alpha') \<Rightarrow> Inr (out, self\<lparr>embed_scale := alpha'\<rparr>))"

text \<open>
  \<^verbatim>\<open>ParamHeaveside\<close> on a tensor of rank 3 or 4: the rows over the last axis are
  what \<^verbatim>\<open>view(-1, size)\<close> sees, and the output has the input's shape.
\<close>

fun unflatten :: "nat list \<Rightarrow> 'a list \<Rightarrow> 'a list list" where
  "unflatten [] xs = []"
| "unflatten (n # ns) xs = take n xs # unflatten ns (drop n xs)"

definition ParamHeaveside_forward3 ::
  "ParamHeaveside \<Rightarrow> tensor3 \<Rightarrow> error + (tensor3 \<times> ParamHeaveside)" where
  "ParamHeaveside_forward3 self x =
     (case ParamHeaveside_forward self (concat x) of
        Inl e \<Rightarrow> Inl e
      | Inr (out, self') \<Rightarrow> Inr (unflatten (map length x) out, self'))"

definition ParamHeaveside_forward4 ::
  "ParamHeaveside \<Rightarrow> tensor4 \<Rightarrow> error + (tensor4 \<times> ParamHeaveside)" where
  "ParamHeaveside_forward4 self x =
     (case ParamHeaveside_forward3 self (concat x) of
        Inl e \<Rightarrow> Inl e
      | Inr (out, self') \<Rightarrow> Inr (unflatten (map length x) out, self'))"

section \<open>Linear maps\<close>

definition sz1 :: "'a list list \<Rightarrow> nat" where
  "sz1 t = (case t of [] \<Rightarrow> 0 | r # _ \<Rightarrow> length r)"

definition sz2 :: "'a list list list \<Rightarrow> nat" where
  "sz2 t = (case t of [] \<Rightarrow> 0 | r # _ \<Rightarrow> sz1 r)"

definition sz3 :: "'a list list list list \<Rightarrow> nat" where
  "sz3 t = (case t of [] \<Rightarrow> 0 | r # _ \<Rightarrow> sz2 r)"

definition size4 :: "'a list list list list \<Rightarrow> nat \<times> nat \<times> nat \<times> nat" where
  "size4 t = (length t, sz1 t, sz2 t, sz3 t)"

definition dot :: "vec \<Rightarrow> vec \<Rightarrow> real" where
  "dot a b = (\<Sum>(x, y)\<leftarrow>zip a b. x * y)"

text \<open>
  \<^verbatim>\<open>nn.Linear\<close>: \<^verbatim>\<open>weight\<close> has one row per output unit (out \<times> in);
  \<^verbatim>\<open>F.linear(x, weight, bias)\<close> acts on the last axis.
\<close>

record Linear =
  weight :: mat
  bias :: "vec option"

definition linear_row :: "mat \<Rightarrow> vec option \<Rightarrow> vec \<Rightarrow> vec" where
  "linear_row w b x =
     (case b of None \<Rightarrow> map (\<lambda>wr. dot x wr) w
      | Some bv \<Rightarrow> map2 (\<lambda>s c. s + c) (map (\<lambda>wr. dot x wr) w) bv)"

definition F_linear :: "tensor3 \<Rightarrow> mat \<Rightarrow> vec option \<Rightarrow> tensor3" where
  "F_linear x w b = map (map (linear_row w b)) x"

definition Linear_forward :: "Linear \<Rightarrow> tensor3 \<Rightarrow> tensor3" where
  "Linear_forward self x = F_linear x (weight self) (bias self)"

text \<open>
  \<^verbatim>\<open>class NormedLinear(nn.Linear)\<close>. \<^verbatim>\<open>mean(dim=0, keepdim=True)\<close> averages over
  the rows (the output units), one mean per column; \<^verbatim>\<open>F.normalize(weight, p=2, dim=0)\<close>
  divides each column by \<^verbatim>\<open>max(norm, eps)\<close> with \<^verbatim>\<open>eps = 1e-12\<close>, the norm taken
  over the rows.
\<close>

record NormedLinear = Linear +
  scale :: real

definition mean_dim0 :: "mat \<Rightarrow> vec" where
  "mean_dim0 w = map (\<lambda>i. (\<Sum>r\<leftarrow>w. r ! i) / real (length w)) [0..<sz1 w]"

definition center_dim0 :: "mat \<Rightarrow> mat" where
  "center_dim0 w = map (\<lambda>r. map2 (\<lambda>v m. v - m) r (mean_dim0 w)) w"

definition normalize_eps :: real where
  "normalize_eps = 1 / 10 ^ 12"

definition norm_dim0 :: "mat \<Rightarrow> vec" where
  "norm_dim0 w = map (\<lambda>i. sqrt (\<Sum>r\<leftarrow>w. (r ! i)\<^sup>2)) [0..<sz1 w]"

definition F_normalize_dim0 :: "mat \<Rightarrow> mat" where
  "F_normalize_dim0 w = map (\<lambda>r. map2 (\<lambda>v n. v / max n normalize_eps) r (norm_dim0 w)) w"

definition normed_weight :: "mat \<Rightarrow> mat" where
  "normed_weight w = F_normalize_dim0 (center_dim0 w)"

definition effective_weight :: "real \<Rightarrow> mat \<Rightarrow> mat" where
  "effective_weight s w = map (map (\<lambda>v. s * v)) (normed_weight w)"

definition NormedLinear_forward :: "NormedLinear \<Rightarrow> tensor3 \<Rightarrow> tensor3" where
  "NormedLinear_forward self x = F_linear x (effective_weight (scale self) (weight self)) (bias self)"

section \<open>Attention scores\<close>

text \<open>
  The additive bias holds \<^verbatim>\<open>float("-inf")\<close> or a finite number. Adding a finite
  score to \<open>-\<infinity>\<close> gives \<open>-\<infinity>\<close>, and \<^verbatim>\<open>F.relu\<close> sends \<open>-\<infinity>\<close> to 0.
\<close>

datatype xreal = MInf | Fin real

fun xadd :: "xreal \<Rightarrow> xreal \<Rightarrow> xreal" where
  "xadd (Fin a) (Fin b) = Fin (a + b)"
| "xadd _ _ = MInf"

fun relu_x :: "xreal \<Rightarrow> real" where
  "relu_x MInf = 0"
| "relu_x (Fin a) = max a 0"

text \<open>
  \<^verbatim>\<open>transpose(1, 2)\<close> of a (B, T, H, hs) tensor acts inside each batch element;
  \<^verbatim>\<open>transpose(-2, -1)\<close> swaps the axes of a matrix.
\<close>

definition transpose_last2 :: "'a list list \<Rightarrow> 'a list list" where
  "transpose_last2 m = map (\<lambda>j. map (\<lambda>r. r ! j) m) [0..<sz1 m]"

definition transpose12 :: "'a list list list list \<Rightarrow> 'a list list list list" where
  "transpose12 t = map transpose_last2 t"

definition matmul :: "mat \<Rightarrow> mat \<Rightarrow> mat" where
  "matmul a b = map (\<lambda>row. map (\<lambda>j. \<Sum>k\<leftarrow>[0..<length b]. row ! k * b ! k ! j) [0..<sz1 b]) a"

definition repeat_interleave :: "nat \<Rightarrow> 'a list \<Rightarrow> 'a list" where
  "repeat_interleave r xs = concat (map (replicate r) xs)"

definition tril_ones :: "nat \<Rightarrow> nat \<Rightarrow> bool list list" where
  "tril_ones l s = map (\<lambda>i. map (\<lambda>j. j \<le> i) [0..<s]) [0..<l]"

definition logical_not :: "bool list list \<Rightarrow> bool list list" where
  "logical_not m = map (map Not) m"

definition masked_fill :: "'a list list \<Rightarrow> bool list list \<Rightarrow> 'a \<Rightarrow> 'a list list" where
  "masked_fill t m v = map2 (\<lambda>row mrow. map2 (\<lambda>x b. if b then v else x) row mrow) t m"

text \<open>
  The \<^verbatim>\<open>mask\<close> argument: a boolean tensor (here its last two axes, queries by keys)
  or a float tensor of the bias's shape. Filling a boolean tensor with
  \<^verbatim>\<open>float("-inf")\<close> stores \<^verbatim>\<open>True\<close>, the truth value of a non-zero number.
\<close>

datatype attn_mask = BoolMask "bool list list" | FloatMask "xreal list list"

definition attn_bias_of :: "nat \<Rightarrow> nat \<Rightarrow> attn_mask option \<Rightarrow> xreal list list \<times> attn_mask option" where
  "attn_bias_of l s amask =
     (let attn_bias = replicate l (replicate s (Fin 0)) in
      case amask of
        None \<Rightarrow>
          (let temp_mask = tril_ones l s
           in (masked_fill attn_bias (logical_not temp_mask) MInf, None))
      | Some (BoolMask m) \<Rightarrow>
          (attn_bias, Some (BoolMask (masked_fill m (logical_not m) True)))
      | Some (FloatMask f) \<Rightarrow>
          (map2 (map2 xadd) attn_bias f, Some (FloatMask f)))"

text \<open>
  \<^verbatim>\<open>CausalSelfAttention.scaled_dot_product_attention\<close>, with \<open>hs\<close> the configured
  \<^verbatim>\<open>head_size\<close>. It returns the output and the mask argument as the call leaves it.
  \<^verbatim>\<open>torch.dropout\<close> with probability 0 changes nothing.
\<close>

definition attn_weight_of :: "real \<Rightarrow> xreal list list \<Rightarrow> mat \<Rightarrow> mat \<Rightarrow> mat" where
  "attn_weight_of scale_factor attn_bias qh kh =
     (let attn_weight = map (map (\<lambda>s. s * scale_factor)) (matmul qh (transpose_last2 kh))
      in map2 (map2 (\<lambda>s b. relu_x (xadd (Fin s) b))) attn_weight attn_bias)"

text \<open>
  The expansion of the key and value heads: when the sizes of \<open>q\<close> and \<open>k\<close> differ,
  each head of \<open>t\<close> (the keys or the values) is repeated
  \<^verbatim>\<open>q.shape[1] // t.shape[1]\<close> times along the head axis.
\<close>

definition kv_heads :: "tensor4 \<Rightarrow> tensor4 \<Rightarrow> tensor4 \<Rightarrow> tensor4" where
  "kv_heads q1 k1 t1 =
     (if size4 q1 \<noteq> size4 k1 then map (repeat_interleave (sz1 q1 div sz1 t1)) t1 else t1)"

definition scaled_dot_product_attention ::
  "nat \<Rightarrow> tensor4 \<Rightarrow> tensor4 \<Rightarrow> tensor4 \<Rightarrow> attn_mask option \<Rightarrow> tensor4 \<times> attn_mask option" where
  "scaled_dot_product_attention hs q k v amask =
     (let scale_factor = 1 / real hs;
          q1 = transpose12 q;
          k1 = transpose12 k;
          v1 = transpose12 v;
          k2 = kv_heads q1 k1 k1;
          v2 = kv_heads q1 k1 v1;
          l = sz2 q1;
          s = sz2 k2;
          (attn_bias, mask') = attn_bias_of l s amask;
          attn_weight = map2 (map2 (attn_weight_of scale_factor attn_bias)) q1 k2;
          y = map2 (map2 matmul) attn_weight v2
      in (transpose12 y, mask'))"

section \<open>Configuration\<close>

text \<open>
  Modelled from the spec: \<^verbatim>\<open>src.config.Config\<close> is imported and not part of the
  source. The fields are the hyperparameters the source reads from it; \<open>config_bias\<close>
  is \<^verbatim>\<open>config.bias\<close>, \<open>norm_class\<close> builds the final norm from a width and an
  epsilon (a map on each token's vector), and \<open>mlp_class\<close> is the configuration's
  choice of feed-forward variant that the commented line of \<^verbatim>\<open>Block.__init__\<close> read.
\<close>

record Config =
  n_embd :: nat
  n_layer :: nat
  n_head :: nat
  n_query_groups :: nat
  head_size :: nat
  intermediate_size :: nat
  block_size :: nat
  padded_vocab_size :: "nat option"
  config_bias :: bool
  parallel_residual :: bool
  shared_attention_norm :: bool
  norm_eps :: real
  norm_class :: "nat \<Rightarrow> real \<Rightarrow> vec \<Rightarrow> vec"
  rotary_percentage :: real
  condense_ratio :: nat
  mlp_class :: string

definition ebind :: "error + 'a \<Rightarrow> ('a \<Rightarrow> error + 'b) \<Rightarrow> error + 'b" where
  "ebind m f = (case m of Inl e \<Rightarrow> Inl e | Inr v \<Rightarrow> f v)"

text \<open>Python's \<^verbatim>\<open>str\<close> of a non-negative integer, for the assertion messages.\<close>

definition digit_char :: "nat \<Rightarrow> char" where
  "digit_char d = ''0123456789'' ! d"

function str_nat :: "nat \<Rightarrow> string" where
  "str_nat n = (if n < 10 then [digit_char n] else str_nat (n div 10) @ [digit_char (n mod 10)])"
  by pat_completeness auto
termination
  by (relation "measure (\<lambda>n. n)") auto

section \<open>Rotary position cache\<close>

text \<open>
  \<^verbatim>\<open>build_rope_cache\<close>. Arithmetic is exact here, so the casts \<^verbatim>\<open>bfloat16()\<close> and
  \<^verbatim>\<open>half()\<close> change nothing; the three returns of the source are kept.
\<close>

datatype dtype = bfloat16 | float16 | int8 | float32

definition cast_bfloat16 :: "mat \<Rightarrow> mat" where
  "cast_bfloat16 t = t"

definition cast_half :: "mat \<Rightarrow> mat" where
  "cast_half t = t"

definition build_rope_cache :: "nat \<Rightarrow> nat \<Rightarrow> dtype \<Rightarrow> nat \<Rightarrow> nat \<Rightarrow> mat \<times> mat" where
  "build_rope_cache seq_len n_elem dt base cratio =
     (let theta = map (\<lambda>j. 1 / (real base powr (real (2 * j) / real n_elem))) [0..<(n_elem + 1) div 2];
          seq_idx = map (\<lambda>i. real i / real cratio) [0..<seq_len];
          idx_theta = map (\<lambda>p. map (\<lambda>t. p * t) theta) seq_idx;
          cs = map (map cos) idx_theta;
          sn = map (map sin) idx_theta
      in if dt = bfloat16 then (cast_bfloat16 cs, cast_bfloat16 sn)
         else if dt \<in> {float16, bfloat16, int8} then (cast_half cs, cast_half sn)
         else (cs, sn))"

text \<open>
  Modelled from the spec: \<^verbatim>\<open>apply_rotary_emb_func\<close> comes from the module
  \<^verbatim>\<open>fused_rotary_embedding\<close>, which is not part of the source. Section 4.4 of the
  spec: with \<open>d\<close> the rotary dimension (twice the width of a table row), the first
  \<open>d\<close> entries of each head vector are rotated, \<open>rotated = concat(-x2, x1)\<close> for the
  two halves \<open>x1\<close>, \<open>x2\<close> of that slice, \<open>result = x * cos + rotated * sin\<close>, and the
  remaining entries pass through. Position \<open>t\<close> of the sequence uses row \<open>t\<close> of the
  tables.
\<close>

definition rotary_vec :: "vec \<Rightarrow> vec \<Rightarrow> vec \<Rightarrow> vec" where
  "rotary_vec c s x =
     (let d = 2 * length c;
          xr = take d x;
          x1 = take (d div 2) xr;
          x2 = drop (d div 2) xr;
          rotated = map uminus x2 @ x1
      in map2 (\<lambda>a b. a + b) (map2 (\<lambda>a b. a * b) xr (c @ c)) (map2 (\<lambda>a b. a * b) rotated (s @ s))
         @ drop d x)"

definition apply_rotary_emb_func :: "tensor4 \<Rightarrow> mat \<Rightarrow> mat \<Rightarrow> tensor4" where
  "apply_rotary_emb_func x cs sn =
     map (\<lambda>xb. map (\<lambda>(xt, c, s). map (rotary_vec c s) xt) (zip xb (zip cs sn))) x"

section \<open>Key/value cache\<close>

text \<open>
  \<^verbatim>\<open>index_copy_(1, index, source)\<close> on a tensor whose first axis is the batch: the
  number of indices must be the size of \<open>source\<close> along axis 1 and every index must lie
  inside \<open>self\<close>, or the library raises. \<^verbatim>\<open>torch.roll(t, -1, dims=1)\<close> rotates each
  batch element left by one slot.
\<close>

definition index_copy_1 :: "'a list list \<Rightarrow> nat list \<Rightarrow> 'a list list \<Rightarrow> error + 'a list list" where
  "index_copy_1 self index source =
     (if \<exists>src\<in>set source. length src \<noteq> length index
      then Inl (RuntimeError ''index_copy_(): Number of indices should be equal to source.size(dim)'')
      else if \<exists>c\<in>set self. \<exists>i\<in>set index. length c \<le> i
      then Inl (IndexError ''index_copy_(): index out of range'')
      else Inr (map2 (\<lambda>c src. fold (\<lambda>(i, r) acc. acc[i := r]) (zip index src) c) self source))"

definition roll_left_1 :: "'a list list \<Rightarrow> 'a list list" where
  "roll_left_1 t = map rotate1 t"

text \<open>
  Lines 382 to 394 of \<^verbatim>\<open>CausalSelfAttention.forward\<close>: the write into the cache.
  When the last position reaches \<open>max_seq_length\<close> the positions are replaced by the
  single index \<open>max_seq_length - 1\<close> and both caches are rolled left first.
\<close>

definition kv_cache_update ::
  "nat \<Rightarrow> nat list \<Rightarrow> tensor4 \<times> tensor4 \<Rightarrow> tensor4 \<Rightarrow> tensor4 \<Rightarrow> error + (tensor4 \<times> tensor4)" where
  "kv_cache_update max_seq_length input_pos kv_cache k v =
     (case kv_cache of (cache_k, cache_v) \<Rightarrow>
        if input_pos = [] then Inl (IndexError ''index -1 is out of bounds for dimension 0 with size 0'')
        else if last input_pos \<ge> max_seq_length then
          (if max_seq_length = 0 then Inl (IndexError ''index_copy_(): index out of range'')
           else ebind (index_copy_1 (roll_left_1 cache_k) [max_seq_length - 1] k) (\<lambda>k'.
                ebind (index_copy_1 (roll_left_1 cache_v) [max_seq_length - 1] v) (\<lambda>v'.
                Inr (k', v'))))
        else ebind (index_copy_1 cache_k input_pos k) (\<lambda>k'.
             ebind (index_copy_1 cache_v input_pos v) (\<lambda>v'.
             Inr (k', v'))))"

section \<open>Attention block\<close>

record CausalSelfAttention =
  attn :: Linear
  encoder_input :: ParamHeaveside
  encoder_k :: ParamHeaveside
  encoder_q :: ParamHeaveside
  encoder_output :: ParamHeaveside
  proj :: NormedLinear
  config :: Config

text \<open>
  \<^verbatim>\<open>qkv.view(B, T, n_query_groups, total_qkv, head_size)\<close> cuts each token's vector
  into groups of \<open>total_qkv\<close> head vectors; \<^verbatim>\<open>split((q_per_kv, 1, 1), dim=-2)\<close> takes
  the queries, the key and the value of each group; \<^verbatim>\<open>reshape(B, T, -1, head_size)\<close>
  lists the head vectors of all groups in order.
\<close>

definition chunks :: "nat \<Rightarrow> 'a list \<Rightarrow> 'a list list" where
  "chunks n xs = map (\<lambda>i. take n (drop (i * n) xs)) [0..<length xs div n]"

definition view_groups :: "nat \<Rightarrow> nat \<Rightarrow> vec \<Rightarrow> real list list list" where
  "view_groups total_qkv hs x = chunks total_qkv (chunks hs x)"

definition split_q :: "nat \<Rightarrow> nat \<Rightarrow> nat \<Rightarrow> tensor3 \<Rightarrow> tensor4" where
  "split_q q_per_kv total_qkv hs qkv =
     map (map (\<lambda>x. concat (map (take q_per_kv) (view_groups total_qkv hs x)))) qkv"

definition split_k :: "nat \<Rightarrow> nat \<Rightarrow> nat \<Rightarrow> tensor3 \<Rightarrow> tensor4" where
  "split_k q_per_kv total_qkv hs qkv =
     map (map (\<lambda>x. concat (map (\<lambda>g. take 1 (drop q_per_kv g)) (view_groups total_qkv hs x)))) qkv"

definition split_v :: "nat \<Rightarrow> nat \<Rightarrow> nat \<Rightarrow> tensor3 \<Rightarrow> tensor4" where
  "split_v q_per_kv total_qkv hs qkv =
     map (map (\<lambda>x. concat (map (\<lambda>g. take 1 (drop (q_per_kv + 1) g)) (view_groups total_qkv hs x)))) qkv"

definition reshape_BTC :: "tensor4 \<Rightarrow> tensor3" where
  "reshape_BTC y = map (map concat) y"

text \<open>
  \<^verbatim>\<open>CausalSelfAttention.forward\<close>. The result carries the output, the cache, the mask
  argument as the call leaves it, and the module, whose spiking activations may have
  been initialised. A cache without positions cannot be indexed (\<^verbatim>\<open>input_pos[-1]\<close>).
\<close>

definition CausalSelfAttention_forward ::
  "CausalSelfAttention \<Rightarrow> tensor3 \<Rightarrow> mat \<times> mat \<Rightarrow> nat \<Rightarrow> attn_mask option \<Rightarrow> nat list option \<Rightarrow>
   (tensor4 \<times> tensor4) option \<Rightarrow>
   error + (tensor3 \<times> (tensor4 \<times> tensor4) option \<times> attn_mask option \<times> CausalSelfAttention)" where
  "CausalSelfAttention_forward self x rope max_seq_length amask input_pos kv_cache =
     ebind (ParamHeaveside_forward3 (encoder_input self) x) (\<lambda>(x1, enc_in).
     let qkv = Linear_forward (attn self) x1;
         cfg = config self;
         q_per_kv = n_head cfg div n_query_groups cfg;
         total_qkv = q_per_kv + 2;
         q0 = split_q q_per_kv total_qkv (head_size cfg) qkv;
         k0 = split_k q_per_kv total_qkv (head_size cfg) qkv;
         v0 = split_v q_per_kv total_qkv (head_size cfg) qkv;
         (cs, sn) = rope;
         q1 = apply_rotary_emb_func q0 cs sn;
         k1 = apply_rotary_emb_func k0 cs sn
     in ebind (ParamHeaveside_forward4 (encoder_q self) q1) (\<lambda>(q2, enc_q).
        ebind (ParamHeaveside_forward4 (encoder_k self) k1) (\<lambda>(k2, enc_k).
        ebind (case kv_cache of
                 None \<Rightarrow> Inr (k2, v0, None)
               | Some kvc \<Rightarrow>
                   (case input_pos of
                      None \<Rightarrow> Inl (TypeError ''NoneType object is not subscriptable'')
                    | Some pos \<Rightarrow>
                        ebind (kv_cache_update max_seq_length pos kvc k2 v0) (\<lambda>(k', v').
                        Inr (k', v', Some (k', v'))))) (\<lambda>(k3, v3, kv_cache').
        let (y0, mask') = scaled_dot_product_attention (head_size cfg) q2 k3 v3 amask;
            y1 = reshape_BTC y0
        in ebind (ParamHeaveside_forward3 (encoder_output self) y1) (\<lambda>(y2, enc_out).
           Inr (NormedLinear_forward (proj self) y2, kv_cache', mask',
                self\<lparr>encoder_input := enc_in, encoder_q := enc_q, encoder_k := enc_k,
                     encoder_output := enc_out\<rparr>))))))"

section \<open>Feed-forward blocks\<close>

text \<open>
  \<^verbatim>\<open>GptNeoxMLP\<close>; its output projection is the field \<open>mlp_proj\<close> (\<^verbatim>\<open>self.proj\<close>).
\<close>

record GptNeoxMLP =
  fc :: Linear
  act2 :: ParamHeaveside
  act1 :: ParamHeaveside
  mlp_proj :: NormedLinear

definition GptNeoxMLP_forward :: "GptNeoxMLP \<Rightarrow> tensor3 \<Rightarrow> error + (tensor3 \<times> GptNeoxMLP)" where
  "GptNeoxMLP_forward self x =
     ebind (ParamHeaveside_forward3 (act1 self) x) (\<lambda>(x1, a1).
     let x2 = Linear_forward (fc self) x1
     in ebind (ParamHeaveside_forward3 (act2 self) x2) (\<lambda>(x3, a2).
        Inr (NormedLinear_forward (mlp_proj self) x3, self\<lparr>act1 := a1, act2 := a2\<rparr>)))"

record SwiGLU =
  w1 :: Linear
  w2 :: Linear
  w3 :: Linear

definition silu :: "real \<Rightarrow> real" where
  "silu v = v / (1 + exp (- v))"

definition SwiGLU_forward :: "SwiGLU \<Rightarrow> tensor3 \<Rightarrow> tensor3" where
  "SwiGLU_forward self x =
     (let x_fc_1 = Linear_forward (w1 self) x;
          x_fc_2 = Linear_forward (w2 self) x;
          x' = map2 (map2 (map2 (\<lambda>a b. silu a * b))) x_fc_1 x_fc_2
      in Linear_forward (w3 self) x')"

record LLaMAMLP =
  swiglu :: SwiGLU

definition LLaMAMLP_forward :: "LLaMAMLP \<Rightarrow> tensor3 \<Rightarrow> tensor3" where
  "LLaMAMLP_forward self x = SwiGLU_forward (swiglu self) x"

text \<open>
  The attribute \<^verbatim>\<open>self.mlp\<close> of a block holds a module of one of the two
  feed-forward classes; calling it dispatches on the class.
\<close>

datatype mlp_module = Mlp_GptNeox GptNeoxMLP | Mlp_LLaMA LLaMAMLP

fun mlp_class_name :: "mlp_module \<Rightarrow> string" where
  "mlp_class_name (Mlp_GptNeox _) = ''GptNeoxMLP''"
| "mlp_class_name (Mlp_LLaMA _) = ''LLaMAMLP''"

fun mlp_forward :: "mlp_module \<Rightarrow> tensor3 \<Rightarrow> error + (tensor3 \<times> mlp_module)" where
  "mlp_forward (Mlp_GptNeox m) x = ebind (GptNeoxMLP_forward m x) (\<lambda>(y, m'). Inr (y, Mlp_GptNeox m'))"
| "mlp_forward (Mlp_LLaMA m) x = Inr (LLaMAMLP_forward m x, Mlp_LLaMA m)"

section \<open>Transformer block\<close>

text \<open>\<^verbatim>\<open>MyNorm\<close>: \<^verbatim>\<open>forward\<close> returns its input.\<close>

record MyNorm =
  mynorm_size :: nat
  mynorm_dim :: int
  mynorm_eps :: real

definition MyNorm_init :: "nat \<Rightarrow> real \<Rightarrow> MyNorm" where
  "MyNorm_init sz e = \<lparr>mynorm_size = sz, mynorm_dim = - 1, mynorm_eps = e\<rparr>"

definition MyNorm_forward :: "MyNorm \<Rightarrow> tensor3 \<Rightarrow> tensor3" where
  "MyNorm_forward self x = x"

text \<open>
  \<^verbatim>\<open>Block\<close>: \<open>block_attn\<close> is \<^verbatim>\<open>self.attn\<close>, \<open>block_config\<close> is \<^verbatim>\<open>self.config\<close>;
  \<^verbatim>\<open>norm_2\<close> exists only when the attention norm is not shared.
\<close>

record Block =
  norm_1 :: MyNorm
  block_attn :: CausalSelfAttention
  norm_2 :: "MyNorm option"
  mlp :: mlp_module
  block_config :: Config

definition tensor_add :: "tensor3 \<Rightarrow> tensor3 \<Rightarrow> tensor3" where
  "tensor_add a b = map2 (map2 (map2 (\<lambda>u v. u + v))) a b"

definition call_norm_2 :: "Block \<Rightarrow> tensor3 \<Rightarrow> error + tensor3" where
  "call_norm_2 self x =
     (case norm_2 self of
        None \<Rightarrow> Inl (AttributeError ''Block object has no attribute norm_2'')
      | Some n \<Rightarrow> Inr (MyNorm_forward n x))"

definition Block_forward ::
  "Block \<Rightarrow> tensor3 \<Rightarrow> mat \<times> mat \<Rightarrow> nat \<Rightarrow> attn_mask option \<Rightarrow> nat list option \<Rightarrow>
   (tensor4 \<times> tensor4) option \<Rightarrow>
   error + (tensor3 \<times> (tensor4 \<times> tensor4) option \<times> attn_mask option \<times> Block)" where
  "Block_forward self x rope max_seq_length amask input_pos kv_cache =
     (let n_1 = MyNorm_forward (norm_1 self) x in
      ebind (CausalSelfAttention_forward (block_attn self) n_1 rope max_seq_length amask input_pos kv_cache)
        (\<lambda>(h, new_kv_cache, mask', attn').
      if parallel_residual (block_config self) then
        ebind (if shared_attention_norm (block_config self) then Inr n_1 else call_norm_2 self x) (\<lambda>n_2.
        ebind (mlp_forward (mlp self) n_2) (\<lambda>(m, mlp').
        Inr (tensor_add (tensor_add x h) m, new_kv_cache, mask',
             self\<lparr>block_attn := attn', mlp := mlp'\<rparr>)))
      else if shared_attention_norm (block_config self) then
        Inl (NotImplementedError
          (''No checkpoint amongst the ones we support uses this configuration'' @
           '' (non-parallel residual and shared attention norm).''))
      else
        (let x1 = tensor_add x h in
         ebind (call_norm_2 self x1) (\<lambda>n_2.
         ebind (mlp_forward (mlp self) n_2) (\<lambda>(m, mlp').
         Inr (tensor_add x1 m, new_kv_cache, mask',
              self\<lparr>block_attn := attn', mlp := mlp'\<rparr>))))))"

section \<open>Construction\<close>

text \<open>
  The library draws the initial values of a linear layer's parameters; \<open>g\<close> stands
  for them (entry \<open>g r i\<close> of the weight, \<open>g r n_in\<close> of the bias).
\<close>

definition Linear_init :: "(nat \<Rightarrow> nat \<Rightarrow> real) \<Rightarrow> nat \<Rightarrow> nat \<Rightarrow> bool \<Rightarrow> Linear" where
  "Linear_init g n_in n_out b =
     \<lparr>weight = map (\<lambda>r. map (\<lambda>i. g r i) [0..<n_in]) [0..<n_out],
      bias = (if b then Some (map (\<lambda>r. g r n_in) [0..<n_out]) else None)\<rparr>"

definition NormedLinear_init :: "(nat \<Rightarrow> nat \<Rightarrow> real) \<Rightarrow> nat \<Rightarrow> nat \<Rightarrow> bool \<Rightarrow> NormedLinear" where
  "NormedLinear_init g n_in n_out b = Linear.extend (Linear_init g n_in n_out b) \<lparr>scale = 1 / 100\<rparr>"

definition CausalSelfAttention_init :: "(nat \<Rightarrow> nat \<Rightarrow> real) \<Rightarrow> Config \<Rightarrow> CausalSelfAttention" where
  "CausalSelfAttention_init g cfg =
     (let shape = (n_head cfg + 2 * n_query_groups cfg) * head_size cfg in
      \<lparr>attn = Linear_init g (n_embd cfg) shape (config_bias cfg),
       encoder_input = ParamHeaveside_init (n_embd cfg),
       encoder_k = ParamHeaveside_init (head_size cfg),
       encoder_q = ParamHeaveside_init (head_size cfg),
       encoder_output = ParamHeaveside_init (n_embd cfg),
       proj = NormedLinear_init g (n_embd cfg) (n_embd cfg) (config_bias cfg),
       config = cfg\<rparr>)"

definition GptNeoxMLP_init :: "(nat \<Rightarrow> nat \<Rightarrow> real) \<Rightarrow> Config \<Rightarrow> GptNeoxMLP" where
  "GptNeoxMLP_init g cfg =
     \<lparr>fc = Linear_init g (n_embd cfg) (intermediate_size cfg) (config_bias cfg),
      act2 = ParamHeaveside_init (intermediate_size cfg),
      act1 = ParamHeaveside_init (n_embd cfg),
      mlp_proj = NormedLinear_init g (intermediate_size cfg) (n_embd cfg) (config_bias cfg)\<rparr>"

definition SwiGLU_init :: "(nat \<Rightarrow> nat \<Rightarrow> real) \<Rightarrow> Config \<Rightarrow> SwiGLU" where
  "SwiGLU_init g cfg =
     \<lparr>w1 = Linear_init g (n_embd cfg) (intermediate_size cfg) (config_bias cfg),
      w2 = Linear_init g (n_embd cfg) (intermediate_size cfg) (config_bias cfg),
      w3 = Linear_init g (intermediate_size cfg) (n_embd cfg) (config_bias cfg)\<rparr>"

definition LLaMAMLP_init :: "(nat \<Rightarrow> nat \<Rightarrow> real) \<Rightarrow> Config \<Rightarrow> LLaMAMLP" where
  "LLaMAMLP_init g cfg = \<lparr>swiglu = SwiGLU_init g cfg\<rparr>"

definition Block_init :: "(nat \<Rightarrow> nat \<Rightarrow> real) \<Rightarrow> Config \<Rightarrow> Block" where
  "Block_init g cfg =
     \<lparr>norm_1 = MyNorm_init (n_embd cfg) (norm_eps cfg),
      block_attn = CausalSelfAttention_init g cfg,
      norm_2 = (if \<not> shared_attention_norm cfg then Some (MyNorm_init (n_embd cfg) (norm_eps cfg)) else None),
      mlp = Mlp_GptNeox (GptNeoxMLP_init g cfg),
      block_config = cfg\<rparr>"

section \<open>The full model\<close>

text \<open>
  \<^verbatim>\<open>QuantGPT\<close>: the fields \<open>transformer_wte\<close> (the embedding table, one row per
  token), \<open>transformer_h\<close> and \<open>transformer_ln_f\<close> are the entries of
  \<^verbatim>\<open>self.transformer\<close>; a cache slot of \<^verbatim>\<open>self.kv_caches\<close> holds what the block
  returned for it.
\<close>

record QuantGPT =
  gpt_config :: Config
  lm_head :: Linear
  transformer_wte :: mat
  transformer_h :: "Block list"
  transformer_ln_f :: "vec \<Rightarrow> vec"
  rope_cache :: "(mat \<times> mat) option"
  mask_cache :: "bool list list option"
  kv_caches :: "(tensor4 \<times> tensor4) option list"

definition QuantGPT_init :: "(nat \<Rightarrow> nat \<Rightarrow> real) \<Rightarrow> Config \<Rightarrow> error + QuantGPT" where
  "QuantGPT_init g cfg =
     (case padded_vocab_size cfg of
        None \<Rightarrow> Inl (AssertionError [])
      | Some vocab \<Rightarrow>
          Inr \<lparr>gpt_config = cfg,
               lm_head = Linear_init g (n_embd cfg) vocab False,
               transformer_wte = map (\<lambda>r. map (\<lambda>i. g r i) [0..<n_embd cfg]) [0..<vocab],
               transformer_h = map (\<lambda>_. Block_init g cfg) [0..<n_layer cfg],
               transformer_ln_f = norm_class cfg (n_embd cfg) (norm_eps cfg),
               rope_cache = None,
               mask_cache = None,
               kv_caches = []\<rparr>)"

text \<open>
  \<^verbatim>\<open>reset_cache\<close>; \<open>xla\<close> says whether the mask cache lives on a device of type
  \<^verbatim>\<open>"xla"\<close>.
\<close>

definition reset_cache :: "bool \<Rightarrow> QuantGPT \<Rightarrow> QuantGPT" where
  "reset_cache xla self =
     (let self1 = self\<lparr>kv_caches := []\<rparr>
      in if mask_cache self1 \<noteq> None \<and> xla
         then self1\<lparr>rope_cache := None, mask_cache := None\<rparr>
         else self1)"

definition int_rotary :: "Config \<Rightarrow> nat" where
  "int_rotary cfg = nat \<lfloor>rotary_percentage cfg * real (head_size cfg)\<rfloor>"

definition QuantGPT_build_rope_cache :: "QuantGPT \<Rightarrow> mat \<times> mat" where
  "QuantGPT_build_rope_cache self =
     build_rope_cache (block_size (gpt_config self)) (int_rotary (gpt_config self)) bfloat16 10000
       (condense_ratio (gpt_config self))"

definition build_mask_cache :: "QuantGPT \<Rightarrow> bool list list" where
  "build_mask_cache self = tril_ones (block_size (gpt_config self)) (block_size (gpt_config self))"

definition zeros4 :: "nat \<Rightarrow> nat \<Rightarrow> nat \<Rightarrow> nat \<Rightarrow> tensor4" where
  "zeros4 a b c d = replicate a (replicate b (replicate c (replicate d 0)))"

definition build_kv_caches :: "QuantGPT \<Rightarrow> tensor3 \<Rightarrow> nat \<Rightarrow> nat \<Rightarrow> (tensor4 \<times> tensor4) option list" where
  "build_kv_caches self x max_seq_length rope_cache_length =
     (let cfg = gpt_config self;
          b = length x;
          heads = (if n_query_groups cfg = 1 then 1 else n_query_groups cfg);
          k_width = rope_cache_length + head_size cfg - int_rotary cfg
      in map (\<lambda>_. Some (zeros4 b max_seq_length heads k_width,
                         zeros4 b max_seq_length heads (head_size cfg)))
           [0..<n_layer cfg])"

text \<open>
  \<^verbatim>\<open>index_select(0, index)\<close> and the embedding lookup raise on an index outside the
  table.
\<close>

definition index_select0 :: "'a list \<Rightarrow> nat list \<Rightarrow> error + 'a list" where
  "index_select0 t index =
     (if \<exists>i\<in>set index. length t \<le> i then Inl (IndexError ''index out of range in self'')
      else Inr (map (\<lambda>i. t ! i) index))"

definition Embedding_forward :: "mat \<Rightarrow> nat list list \<Rightarrow> error + tensor3" where
  "Embedding_forward w idx =
     (if \<exists>row\<in>set idx. \<exists>i\<in>set row. length w \<le> i then Inl (IndexError ''index out of range in self'')
      else Inr (map (map (\<lambda>i. w ! i)) idx))"

text \<open>The two loops over the layers of \<^verbatim>\<open>QuantGPT.forward\<close>.\<close>

fun layers_nocache ::
  "nat list \<Rightarrow> Block list \<Rightarrow> tensor3 \<Rightarrow> mat \<times> mat \<Rightarrow> nat \<Rightarrow> error + (tensor3 \<times> Block list)" where
  "layers_nocache [] hs x rope max_seq_length = Inr (x, hs)"
| "layers_nocache (i # rest) hs x rope max_seq_length =
     (if length hs \<le> i then Inl (IndexError ''index out of range'')
      else ebind (Block_forward (hs ! i) x rope max_seq_length None None None)
             (\<lambda>(x', new_kv, mask', blk').
                layers_nocache rest (hs[i := blk']) x' rope max_seq_length))"

fun layers_cache ::
  "nat list \<Rightarrow> Block list \<Rightarrow> (tensor4 \<times> tensor4) option list \<Rightarrow> attn_mask option \<Rightarrow> tensor3 \<Rightarrow>
   mat \<times> mat \<Rightarrow> nat \<Rightarrow> nat list \<Rightarrow>
   error + (tensor3 \<times> Block list \<times> (tensor4 \<times> tensor4) option list)" where
  "layers_cache [] hs kvs amask x rope max_seq_length input_pos = Inr (x, hs, kvs)"
| "layers_cache (i # rest) hs kvs amask x rope max_seq_length input_pos =
     (if length hs \<le> i \<or> length kvs \<le> i then Inl (IndexError ''index out of range'')
      else ebind (Block_forward (hs ! i) x rope max_seq_length amask (Some input_pos) (kvs ! i))
             (\<lambda>(x', new_kv, mask', blk').
                layers_cache rest (hs[i := blk']) (kvs[i := new_kv]) mask' x' rope max_seq_length
                  input_pos))"

definition QuantGPT_forward ::
  "QuantGPT \<Rightarrow> nat list list \<Rightarrow> nat option \<Rightarrow> nat list option \<Rightarrow> error + (tensor3 \<times> QuantGPT)" where
  "QuantGPT_forward self idx max_seq_length_arg input_pos =
     (let t = sz1 idx;
          use_kv_cache = (input_pos \<noteq> None);
          bs = block_size (gpt_config self);
          max_seq_length = (case max_seq_length_arg of None \<Rightarrow> bs | Some m \<Rightarrow> m)
      in
      if use_kv_cache \<and> \<not> (max_seq_length \<ge> t) then
        Inl (AssertionError (''Cannot forward sequence of length '' @ str_nat t @
              '', max seq length is only '' @ str_nat max_seq_length))
      else if \<not> (max_seq_length \<le> bs) then
        Inl (AssertionError (''Cannot attend to '' @ str_nat max_seq_length @
              '', block size is only '' @ str_nat bs))
      else if \<not> (bs \<ge> t) then
        Inl (AssertionError (''Cannot forward sequence of length '' @ str_nat t @
              '', block size is only '' @ str_nat bs))
      else
        (let self1 = (if rope_cache self = None
                      then self\<lparr>rope_cache := Some (QuantGPT_build_rope_cache self)\<rparr> else self);
             self2 = (if use_kv_cache \<and> mask_cache self1 = None
                      then self1\<lparr>mask_cache := Some (build_mask_cache self1)\<rparr> else self1);
             (cs, sn) = (case rope_cache self2 of Some r \<Rightarrow> r | None \<Rightarrow> ([], []))
         in
         case input_pos of
           Some pos \<Rightarrow>
             ebind (index_select0 cs pos) (\<lambda>cs'.
             ebind (index_select0 sn pos) (\<lambda>sn'.
             ebind (index_select0 (case mask_cache self2 of Some m \<Rightarrow> m | None \<Rightarrow> []) pos) (\<lambda>mrows.
             let amask = BoolMask (map (take max_seq_length) mrows) in
             ebind (Embedding_forward (transformer_wte self2) idx) (\<lambda>x.
             let kvs = (if kv_caches self2 \<noteq> [] then kv_caches self2
                        else build_kv_caches self2 x max_seq_length (sz1 cs' * 2))
             in ebind (layers_cache [0..<n_layer (gpt_config self2)] (transformer_h self2) kvs
                         (Some amask) x (cs', sn') max_seq_length pos) (\<lambda>(x', hs', kvs').
                Inr (Linear_forward (lm_head self2) (map (map (transformer_ln_f self2)) x'),
                     self2\<lparr>transformer_h := hs', kv_caches := kvs'\<rparr>))))))
         | None \<Rightarrow>
             ebind (Embedding_forward (transformer_wte self2) idx) (\<lambda>x.
             ebind (layers_nocache [0..<n_layer (gpt_config self2)] (transformer_h self2) x
                      (take t cs, take t sn) max_seq_length) (\<lambda>(x', hs').
             Inr (Linear_forward (lm_head self2) (map (map (transformer_ln_f self2)) x'),
                  self2\<lparr>transformer_h := hs'\<rparr>)))))"

section \<open>Weight initialisation\<close>

text \<open>
  What \<^verbatim>\<open>_init_weights\<close> sees of a module: its class, its own parameters by name
  (each flattened to a list of entries) and its child modules, in registration order.
  The first component is the name the parent registered the module under.
\<close>

datatype module_class =
    Embedding_cls | Linear_cls | NormedLinear_cls | ParamHeaveside_cls | MyNorm_cls
  | CausalSelfAttention_cls | GptNeoxMLP_cls | LLaMAMLP_cls | SwiGLU_cls | Block_cls

datatype module = Module string module_class "(string \<times> vec) list" "module list"

fun mname :: "module \<Rightarrow> string" where
  "mname (Module n c ps chs) = n"

fun mclass :: "module \<Rightarrow> module_class" where
  "mclass (Module n c ps chs) = c"

fun own_parameters :: "module \<Rightarrow> (string \<times> vec) list" where
  "own_parameters (Module n c ps chs) = ps"

fun children :: "module \<Rightarrow> module list" where
  "children (Module n c ps chs) = chs"

definition module_of_Embedding :: "string \<Rightarrow> mat \<Rightarrow> module" where
  "module_of_Embedding n w = Module n Embedding_cls [(''weight'', concat w)] []"

definition module_of_Linear :: "string \<Rightarrow> Linear \<Rightarrow> module" where
  "module_of_Linear n l =
     Module n Linear_cls
       ((''weight'', concat (weight l)) # (case bias l of None \<Rightarrow> [] | Some b \<Rightarrow> [(''bias'', b)])) []"

definition module_of_NormedLinear :: "string \<Rightarrow> NormedLinear \<Rightarrow> module" where
  "module_of_NormedLinear n l =
     Module n NormedLinear_cls
       ((''weight'', concat (weight l)) # (case bias l of None \<Rightarrow> [] | Some b \<Rightarrow> [(''bias'', b)])
        @ [(''scale'', [scale l])]) []"

definition module_of_ParamHeaveside :: "string \<Rightarrow> ParamHeaveside \<Rightarrow> module" where
  "module_of_ParamHeaveside n p =
     Module n ParamHeaveside_cls
       [(''zero_point'', zero_point p), (''embed_scale'', data (embed_scale p))] []"

definition module_of_MyNorm :: "string \<Rightarrow> MyNorm \<Rightarrow> module" where
  "module_of_MyNorm n m = Module n MyNorm_cls [] []"

definition module_of_CausalSelfAttention :: "string \<Rightarrow> CausalSelfAttention \<Rightarrow> module" where
  "module_of_CausalSelfAttention n a =
     Module n CausalSelfAttention_cls []
       [module_of_Linear ''attn'' (attn a),
        module_of_ParamHeaveside ''encoder_input'' (encoder_input a),
        module_of_ParamHeaveside ''encoder_k'' (encoder_k a),
        module_of_ParamHeaveside ''encoder_q'' (encoder_q a),
        module_of_ParamHeaveside ''encoder_output'' (encoder_output a),
        module_of_NormedLinear ''proj'' (proj a)]"

definition module_of_GptNeoxMLP :: "string \<Rightarrow> GptNeoxMLP \<Rightarrow> module" where
  "module_of_GptNeoxMLP n m =
     Module n GptNeoxMLP_cls []
       [module_of_Linear ''fc'' (fc m),
        module_of_ParamHeaveside ''act2'' (act2 m),
        module_of_ParamHeaveside ''act1'' (act1 m),
        module_of_NormedLinear ''proj'' (mlp_proj m)]"

definition module_of_SwiGLU :: "string \<Rightarrow> SwiGLU \<Rightarrow> module" where
  "module_of_SwiGLU n m =
     Module n SwiGLU_cls []
       [module_of_Linear ''w1'' (w1 m), module_of_Linear ''w2'' (w2 m), module_of_Linear ''w3'' (w3 m)]"

definition module_of_LLaMAMLP :: "string \<Rightarrow> LLaMAMLP \<Rightarrow> module" where
  "module_of_LLaMAMLP n m = Module n LLaMAMLP_cls [] [module_of_SwiGLU ''swiglu'' (swiglu m)]"

fun module_of_mlp :: "string \<Rightarrow> mlp_module \<Rightarrow> module" where
  "module_of_mlp n (Mlp_GptNeox m) = module_of_GptNeoxMLP n m"
| "module_of_mlp n (Mlp_LLaMA m) = module_of_LLaMAMLP n m"

definition module_of_Block :: "string \<Rightarrow> Block \<Rightarrow> module" where
  "module_of_Block n b =
     Module n Block_cls []
       ([module_of_MyNorm ''norm_1'' (norm_1 b),
         module_of_CausalSelfAttention ''attn'' (block_attn b)]
        @ (case norm_2 b of None \<Rightarrow> [] | Some m \<Rightarrow> [module_of_MyNorm ''norm_2'' m])
        @ [module_of_mlp ''mlp'' (mlp b)])"

text \<open>
  \<^verbatim>\<open>named_parameters()\<close>: the module's own parameters, then those of its children,
  depth first, each name prefixed with the path of child names.
\<close>

fun named_parameters :: "module \<Rightarrow> (string \<times> vec) list" where
  "named_parameters (Module n c ps chs) =
     ps @ concat (map (\<lambda>m. map (\<lambda>(pn, p). (mname m @ ''.'' @ pn, p)) (named_parameters m)) chs)"

text \<open>
  A random draw is an entry of a stream of standard normal samples; the generator is
  the stream and the number of samples used so far. \<^verbatim>\<open>normal_(p, mean, std)\<close>
  overwrites every entry of \<open>p\<close> with \<open>mean + std * sample\<close>.
\<close>

type_synonym rng = "(nat \<Rightarrow> real) \<times> nat"

definition normal_fill :: "vec \<Rightarrow> real \<Rightarrow> real \<Rightarrow> rng \<Rightarrow> vec \<times> rng" where
  "normal_fill p mean std g =
     (case g of (z, pos) \<Rightarrow>
        (map (\<lambda>i. mean + std * z (pos + i)) [0..<length p], (z, pos + length p)))"

definition zeros_fill :: "vec \<Rightarrow> vec" where
  "zeros_fill p = replicate (length p) 0"

text \<open>
  The loop \<^verbatim>\<open>for name, p in module.named_parameters()\<close> with an in-place update of
  the parameters it selects: \<open>f\<close> gets the dotted name and the parameter.
\<close>

fun for_own_parameters ::
  "(string \<Rightarrow> vec \<Rightarrow> rng \<Rightarrow> vec \<times> rng) \<Rightarrow> string \<Rightarrow> (string \<times> vec) list \<Rightarrow> rng \<Rightarrow>
   (string \<times> vec) list \<times> rng" where
  "for_own_parameters f prefix [] g = ([], g)"
| "for_own_parameters f prefix ((pn, p) # ps) g =
     (case f (prefix @ pn) p g of (p', g1) \<Rightarrow>
        (case for_own_parameters f prefix ps g1 of (ps', g2) \<Rightarrow> ((pn, p') # ps', g2)))"

fun for_named_parameters ::
  "(string \<Rightarrow> vec \<Rightarrow> rng \<Rightarrow> vec \<times> rng) \<Rightarrow> string \<Rightarrow> module \<Rightarrow> rng \<Rightarrow> module \<times> rng"
and for_children ::
  "(string \<Rightarrow> vec \<Rightarrow> rng \<Rightarrow> vec \<times> rng) \<Rightarrow> string \<Rightarrow> module list \<Rightarrow> rng \<Rightarrow> module list \<times> rng" where
  "for_named_parameters f prefix (Module n c ps chs) g =
     (case for_own_parameters f prefix ps g of (ps', g1) \<Rightarrow>
        (case for_children f prefix chs g1 of (chs', g2) \<Rightarrow> (Module n c ps' chs', g2)))"
| "for_children f prefix [] g = ([], g)"
| "for_children f prefix (m # ms) g =
     (case for_named_parameters f (prefix @ mname m @ ''.'') m g of (m', g1) \<Rightarrow>
        (case for_children f prefix ms g1 of (ms', g2) \<Rightarrow> (m' # ms', g2)))"

definition isinstance_Linear :: "module \<Rightarrow> bool" where
  "isinstance_Linear m = (mclass m = Linear_cls \<or> mclass m = NormedLinear_cls)"

definition general_std :: "Config \<Rightarrow> real" where
  "general_std cfg = sqrt (2 / 5 / real (n_embd cfg))"

definition proj_std :: "Config \<Rightarrow> nat \<Rightarrow> real" where
  "proj_std cfg num_layer = 1 / sqrt (real (n_embd cfg)) / real num_layer"

text \<open>
  \<^verbatim>\<open>QuantGPT._init_weights(module, n_layer)\<close>: the branch on the module's class,
  then the loop over its named parameters.
\<close>

definition init_own :: "Config \<Rightarrow> module \<Rightarrow> rng \<Rightarrow> module \<times> rng" where
  "init_own cfg m g =
     (case m of Module n c ps chs \<Rightarrow>
        if c = Embedding_cls then
          (case for_own_parameters
                  (\<lambda>pn p g'. if pn = ''weight'' then normal_fill p 0 (general_std cfg) g' else (p, g'))
                  [] ps g of
             (ps', g1) \<Rightarrow> (Module n c ps' chs, g1))
        else if isinstance_Linear m then
          (case for_own_parameters
                  (\<lambda>pn p g'. if pn = ''weight'' then normal_fill p 0 (general_std cfg) g'
                             else if pn = ''bias'' then (zeros_fill p, g') else (p, g'))
                  [] ps g of
             (ps', g1) \<Rightarrow> (Module n c ps' chs, g1))
        else (m, g))"

definition init_weights :: "Config \<Rightarrow> nat \<Rightarrow> module \<Rightarrow> rng \<Rightarrow> module \<times> rng" where
  "init_weights cfg num_layer m g =
     (case init_own cfg m g of (m1, g1) \<Rightarrow>
        for_named_parameters
          (\<lambda>name p g'.
             if (name = ''proj.weight'' \<and> mclass m1 = LLaMAMLP_cls) \<or>
                (name = ''w3.weight'' \<and> mclass m1 = SwiGLU_cls \<or>
                 (name = ''proj.weight'' \<and> mclass m1 = CausalSelfAttention_cls))
             then normal_fill p 0 (proj_std cfg num_layer) g'
             else (p, g'))
          [] m1 g1)"

text \<open>\<^verbatim>\<open>nn.Module.apply(fn)\<close>: the children first, in order, then the module itself.\<close>

fun apply_fn :: "(module \<Rightarrow> rng \<Rightarrow> module \<times> rng) \<Rightarrow> module \<Rightarrow> rng \<Rightarrow> module \<times> rng"
and apply_children :: "(module \<Rightarrow> rng \<Rightarrow> module \<times> rng) \<Rightarrow> module list \<Rightarrow> rng \<Rightarrow> module list \<times> rng" where
  "apply_fn fn (Module n c ps chs) g =
     (case apply_children fn chs g of (chs', g1) \<Rightarrow> fn (Module n c ps chs') g1)"
| "apply_children fn [] g = ([], g)"
| "apply_children fn (m # ms) g =
     (case apply_fn fn m g of (m', g1) \<Rightarrow>
        (case apply_children fn ms g1 of (ms', g2) \<Rightarrow> (m' # ms', g2)))"

definition parameter :: "module \<Rightarrow> string \<Rightarrow> vec option" where
  "parameter m name = map_of (named_parameters m) name"

section \<open>A small model instance\<close>

text \<open>
  One layer, one head of size 2, embedding width 2, two tokens, block size 2; every
  spiking activation already initialised; the rotary tables hold the angles 0 and a
  quarter turn.
\<close>

definition example_config :: Config where
  "example_config =
     \<lparr>n_embd = 2, n_layer = 1, n_head = 1, n_query_groups = 1, head_size = 2,
      intermediate_size = 2, block_size = 2, padded_vocab_size = Some 2, config_bias = False,
      parallel_residual = True, shared_attention_norm = False, norm_eps = 1 / 100000,
      norm_class = (\<lambda>n e v. v), rotary_percentage = 1, condense_ratio = 1,
      mlp_class = ''GptNeoxMLP''\<rparr>"

definition example_values :: "nat \<Rightarrow> nat \<Rightarrow> real" where
  "example_values r i = (if r = i then 1 else 1 / 2)"

definition example_act :: "nat \<Rightarrow> ParamHeaveside" where
  "example_act n = \<lparr>zero_point = replicate n 0, embed_scale = \<lparr>data = replicate n 1, initialized = True\<rparr>\<rparr>"

definition example_attention :: CausalSelfAttention where
  "example_attention =
     (CausalSelfAttention_init example_values example_config)
       \<lparr>encoder_input := example_act 2, encoder_k := example_act 2, encoder_q := example_act 2,
        encoder_output := example_act 2\<rparr>"

definition example_mlp :: GptNeoxMLP where
  "example_mlp = (GptNeoxMLP_init example_values example_config)\<lparr>act2 := example_act 2, act1 := example_act 2\<rparr>"

definition example_block :: Block where
  "example_block =
     (Block_init example_values example_config)
       \<lparr>block_attn := example_attention, mlp := Mlp_GptNeox example_mlp\<rparr>"

definition example_model :: QuantGPT where
  "example_model =
     \<lparr>gpt_config = example_config,
      lm_head = Linear_init example_values 2 2 False,
      transformer_wte = [[1, 2], [3, - 1]],
      transformer_h = [example_block],
      transformer_ln_f = (\<lambda>v. v),
      rope_cache = Some ([[1], [0]], [[0], [1]]),
      mask_cache = None,
      kv_caches = []\<rparr>"

text \<open>Shapes of nested lists: every entry along an axis has the same length.\<close>

definition shape2 :: "nat \<Rightarrow> nat \<Rightarrow> 'a list list \<Rightarrow> bool" where
  "shape2 a b t \<longleftrightarrow> length t = a \<and> (\<forall>r\<in>set t. length r = b)"

definition shape3 :: "nat \<Rightarrow> nat \<Rightarrow> nat \<Rightarrow> 'a list list list \<Rightarrow> bool" where
  "shape3 a b c t \<longleftrightarrow> length t = a \<and> (\<forall>r\<in>set t. shape2 b c r)"

definition shape4 :: "nat \<Rightarrow> nat \<Rightarrow> nat \<Rightarrow> nat \<Rightarrow> 'a list list list list \<Rightarrow> bool" where
  "shape4 a b c d t \<longleftrightarrow> length t = a \<and> (\<forall>r\<in>set t. shape3 b c d r)"

declare str_nat.simps [simp del]

section \<open>Incremental decoding and the forward pass with initialised activations\<close>

text \<open>
  Decoding one token at a time: for each position \<open>i\<close> of the list, in order, one call
  of \<open>QuantGPT_forward\<close> on column \<open>i\<close> of the tokens (\<^verbatim>\<open>idx[:, i:i+1]\<close>) with
  \<^verbatim>\<open>input_pos = [i]\<close>, each call on the model the previous one left.
\<close>

definition select_pos :: "nat \<Rightarrow> 'a list list \<Rightarrow> 'a list list" where
  "select_pos i x = map (\<lambda>row. [row ! i]) x"


text \<open>
  Auxiliary definitions for the comparison of the two ways of decoding. Once a spiking
  activation is initialised its forward pass is the map \<open>spike\<close> on every row, and the
  attention block, the feed-forward block and the transformer block become functions of
  their input: \<open>attn_q\<close>, \<open>attn_k\<close> and \<open>attn_v\<close> are the queries, keys and values that
  \<open>CausalSelfAttention_forward\<close> hands to the attention (or writes to the cache),
  \<open>attn_post\<close> what it does with the attention's output, \<open>block_full\<close> the output of
  a block without cache and \<open>hidden\<close> the input of layer \<open>l\<close> in a full-sequence call.
\<close>

definition spike :: "ParamHeaveside \<Rightarrow> vec \<Rightarrow> vec" where
  "spike p row =
     map2 (\<lambda>a v. a * v) (data (embed_scale p))
       (map (\<lambda>v. if v > 0 then 1 else 0) (map2 (\<lambda>v b. v - b) row (zero_point p)))"

definition attn_qkv :: "CausalSelfAttention \<Rightarrow> tensor3 \<Rightarrow> tensor3" where
  "attn_qkv a x = Linear_forward (attn a) (map (map (spike (encoder_input a))) x)"

definition q_per_kv_of :: "Config \<Rightarrow> nat" where
  "q_per_kv_of cfg = n_head cfg div n_query_groups cfg"

definition attn_q :: "CausalSelfAttention \<Rightarrow> mat \<times> mat \<Rightarrow> tensor3 \<Rightarrow> tensor4" where
  "attn_q a rope x =
     map (map (map (spike (encoder_q a))))
       (apply_rotary_emb_func
          (split_q (q_per_kv_of (config a)) (q_per_kv_of (config a) + 2) (head_size (config a))
             (attn_qkv a x))
          (fst rope) (snd rope))"

definition attn_k :: "CausalSelfAttention \<Rightarrow> mat \<times> mat \<Rightarrow> tensor3 \<Rightarrow> tensor4" where
  "attn_k a rope x =
     map (map (map (spike (encoder_k a))))
       (apply_rotary_emb_func
          (split_k (q_per_kv_of (config a)) (q_per_kv_of (config a) + 2) (head_size (config a))
             (attn_qkv a x))
          (fst rope) (snd rope))"

definition attn_v :: "CausalSelfAttention \<Rightarrow> tensor3 \<Rightarrow> tensor4" where
  "attn_v a x =
     split_v (q_per_kv_of (config a)) (q_per_kv_of (config a) + 2) (head_size (config a))
       (attn_qkv a x)"

definition attn_post :: "CausalSelfAttention \<Rightarrow> tensor4 \<Rightarrow> tensor3" where
  "attn_post a y =
     NormedLinear_forward (proj a) (map (map (spike (encoder_output a))) (reshape_BTC y))"

definition attn_full :: "CausalSelfAttention \<Rightarrow> mat \<times> mat \<Rightarrow> tensor3 \<Rightarrow> tensor3" where
  "attn_full a rope x =
     attn_post a (fst (scaled_dot_product_attention (head_size (config a))
       (attn_q a rope x) (attn_k a rope x) (attn_v a x) None))"

fun mlp_pure :: "mlp_module \<Rightarrow> tensor3 \<Rightarrow> tensor3" where
  "mlp_pure (Mlp_GptNeox m) x =
     NormedLinear_forward (mlp_proj m)
       (map (map (spike (act2 m))) (Linear_forward (fc m) (map (map (spike (act1 m))) x)))"
| "mlp_pure (Mlp_LLaMA m) x = LLaMAMLP_forward m x"

definition block_pure :: "Block \<Rightarrow> tensor3 \<Rightarrow> tensor3 \<Rightarrow> tensor3" where
  "block_pure blk x h =
     (if parallel_residual (block_config blk)
      then tensor_add (tensor_add x h) (mlp_pure (mlp blk) x)
      else tensor_add (tensor_add x h) (mlp_pure (mlp blk) (tensor_add x h)))"

definition block_full :: "Block \<Rightarrow> mat \<times> mat \<Rightarrow> tensor3 \<Rightarrow> tensor3" where
  "block_full blk rope x = block_pure blk x (attn_full (block_attn blk) rope x)"

definition hidden :: "Block list \<Rightarrow> mat \<times> mat \<Rightarrow> tensor3 \<Rightarrow> nat \<Rightarrow> tensor3" where
  "hidden hs rope x0 l = fold (\<lambda>blk x. block_full blk rope x) (take l hs) x0"


definition rope_tables :: "QuantGPT \<Rightarrow> mat \<times> mat" where
  "rope_tables self = (case rope_cache self of Some r \<Rightarrow> r | None \<Rightarrow> QuantGPT_build_rope_cache self)"














section \<open>Lazy initialisation happens at most once\<close>

lemma initialize_wrapper_fresh:
  "\<not> initialized a \<Longrightarrow>
   initialize_wrapper a x =
     Inr \<lparr>data = map (\<lambda>m. 4 * m) (abs_mean_dim0 (length (data a)) x), initialized = True\<rparr>"
  by (simp add: initialize_wrapper_def initialize_def Let_def)

lemma initialize_wrapper_again:
  "initialized a \<Longrightarrow> initialize_wrapper a x = Inl (AssertionError ''already initialized.'')"
  by (simp add: initialize_wrapper_def initialize_def Let_def)

lemma uq_forward_initialized:
  "initialized a \<Longrightarrow>
   uq_forward x a beta =
     Inr (mul_alpha (data a) (positive_float (sub_beta beta x)), (sub_beta beta x, data a), a)"
  by (simp add: uq_forward_def Let_def)

text \<open>
  Claim C7. A forward call of the spiking activation through an uninitialised
  \<open>AlphaInit\<close> succeeds, sets the parameter, channel by channel, to 4 times the mean
  absolute value of that input batch (a batch with at least one row) and marks it
  initialised; a forward call through an initialised parameter returns it unchanged;
  and running the initialisation on an initialised parameter (through
  \<open>initialize_wrapper\<close> or \<open>initialize\<close> itself) fails with the assertion's message,
  so the value is not overwritten.
\<close>

theorem AlphaInit_initialized_at_most_once:
  "(\<not> initialized a \<and> x \<noteq> [] \<longrightarrow>
      (\<exists>out ctx a'. uq_forward x a beta = Inr (out, ctx, a') \<and> initialized a' \<and>
         data a' = map (\<lambda>c. 4 * ((\<Sum>r\<leftarrow>x. \<bar>r ! c\<bar>) / real (length x))) [0..<length (data a)] \<and>
         (\<exists>out2 ctx2. uq_forward x2 a' beta2 = Inr (out2, ctx2, a')))) \<and>
   (initialized a \<longrightarrow>
      (\<exists>out ctx. uq_forward x a beta = Inr (out, ctx, a)) \<and>
      initialize_wrapper a x = Inl (AssertionError ''already initialized.'') \<and>
      initialize a v = Inl (AssertionError ''already initialized.''))"
proof (intro conjI impI)
  assume fresh: "\<not> initialized a \<and> x \<noteq> []"
  let ?a' = "\<lparr>data = map (\<lambda>m. 4 * m) (abs_mean_dim0 (length (data a)) x), initialized = True\<rparr>"
  have w: "initialize_wrapper a x = Inr ?a'"
    using fresh by (simp add: initialize_wrapper_fresh)
  have first: "uq_forward x a beta =
      Inr (mul_alpha (data ?a') (positive_float (sub_beta beta x)), (sub_beta beta x, data ?a'), ?a')"
    using fresh w by (simp add: uq_forward_def Let_def)
  have val: "data ?a' = map (\<lambda>c. 4 * ((\<Sum>r\<leftarrow>x. \<bar>r ! c\<bar>) / real (length x))) [0..<length (data a)]"
    by (simp add: abs_mean_dim0_def)
  show "\<exists>out ctx a'. uq_forward x a beta = Inr (out, ctx, a') \<and> initialized a' \<and>
         data a' = map (\<lambda>c. 4 * ((\<Sum>r\<leftarrow>x. \<bar>r ! c\<bar>) / real (length x))) [0..<length (data a)] \<and>
         (\<exists>out2 ctx2. uq_forward x2 a' beta2 = Inr (out2, ctx2, a'))"
  proof (intro exI conjI)
    show "uq_forward x a beta =
      Inr (mul_alpha (data ?a') (positive_float (sub_beta beta x)), (sub_beta beta x, data ?a'), ?a')"
      by (rule first)
    show "initialized ?a'" by simp
    show "data ?a' = map (\<lambda>c. 4 * ((\<Sum>r\<leftarrow>x. \<bar>r ! c\<bar>) / real (length x))) [0..<length (data a)]"
      by (rule val)
    show "uq_forward x2 ?a' beta2 =
      Inr (mul_alpha (data ?a') (positive_float (sub_beta beta2 x2)), (sub_beta beta2 x2, data ?a'), ?a')"
      by (simp add: uq_forward_initialized)
  qed
next
  assume "initialized a"
  then show "\<exists>out ctx. uq_forward x a beta = Inr (out, ctx, a)"
    by (simp add: uq_forward_initialized)
next
  assume "initialized a"
  then show "initialize_wrapper a x = Inl (AssertionError ''already initialized.'')"
    by (rule initialize_wrapper_again)
next
  assume "initialized a"
  then show "initialize a v = Inl (AssertionError ''already initialized.'')"
    by (simp add: initialize_def)
qed

theorem AlphaInit_initialized_at_most_once_witness:
  "(\<exists>out ctx. uq_forward [[1, -3], [3, 5]] (AlphaInit_init [1, 1]) [0, 0] =
      Inr (out, ctx, \<lparr>data = [8, 16], initialized = True\<rparr>)) \<and>
   (\<exists>out ctx. uq_forward [[7, 7]] \<lparr>data = [8, 16], initialized = True\<rparr> [0, 0] =
      Inr (out, ctx, \<lparr>data = [8, 16], initialized = True\<rparr>)) \<and>
   initialize_wrapper \<lparr>data = [8, 16], initialized = True\<rparr> [[7, 7]] =
      Inl (AssertionError ''already initialized.'')"
proof -
  have fresh: "\<not> initialized (AlphaInit_init [1, 1]) \<and> [[1, -3], [3, 5 :: real]] \<noteq> []"
    by (simp add: AlphaInit_init_def)
  have done_: "initialized \<lparr>data = [8, 16], initialized = True\<rparr>"
    by simp
  have ev: "uq_forward [[1, -3], [3, 5]] (AlphaInit_init [1, 1]) [0, 0] =
      Inr ([[8, 0], [8, 16]], ([[1, -3], [3, 5]], [8, 16]), \<lparr>data = [8, 16], initialized = True\<rparr>)"
    by (simp add: uq_forward_def initialize_wrapper_def initialize_def abs_mean_dim0_def
        AlphaInit_init_def sub_beta_def positive_float_def mul_alpha_def Let_def)
  from AlphaInit_initialized_at_most_once
    [of "AlphaInit_init [1, 1]" "[[1, -3], [3, 5]]" "[0, 0]" "[[7, 7]]" "[0, 0]" "[]"]
    AlphaInit_initialized_at_most_once
    [of "\<lparr>data = [8, 16], initialized = True\<rparr>" "[[7, 7]]" "[0, 0]" "[]" "[]" "[]"]
    fresh done_ ev
  show ?thesis by auto
qed

section \<open>Boolean attention masks\<close>

text \<open>
  Claim C2, at a concrete input. One head of size 2, two queries and two keys, and a
  boolean mask that disallows key 1 for query 0. The call fills the boolean mask
  itself (every entry becomes \<open>True\<close>) and leaves the bias at zero, so the bias at the
  disallowed position is 0 and not \<open>-\<infinity>\<close>, the attention weight there is 2 and not
  0, and the output of query 0 includes the value of key 1.
\<close>

theorem boolean_mask_leaves_bias_zero:
  "scaled_dot_product_attention 2 [[[[1, 2]], [[3, 4]]]] [[[[1, 1]], [[2, 1]]]] [[[[1, 0]], [[0, 1]]]]
     (Some (BoolMask [[True, False], [True, True]]))
   = ([[[[3 / 2, 2]], [[7 / 2, 5]]]], Some (BoolMask [[True, True], [True, True]])) \<and>
   fst (attn_bias_of 2 2 (Some (BoolMask [[True, False], [True, True]]))) ! 0 ! 1 = Fin 0 \<and>
   attn_weight_of (1 / 2) (fst (attn_bias_of 2 2 (Some (BoolMask [[True, False], [True, True]]))))
     [[1, 2], [3, 4]] [[1, 1], [2, 1]] ! 0 ! 1 = 2"
  by (simp add: scaled_dot_product_attention_def transpose12_def transpose_last2_def sz1_def
      sz2_def sz3_def size4_def attn_bias_of_def masked_fill_def logical_not_def
      attn_weight_of_def matmul_def repeat_interleave_def kv_heads_def Let_def tril_ones_def)

section \<open>Failing calls\<close>

lemma ParamHeaveside_forward_total:
  "\<exists>out p'. ParamHeaveside_forward p x = Inr (out, p')"
  by (cases "initialized (embed_scale p)")
     (simp_all add: ParamHeaveside_forward_def uq_forward_def initialize_wrapper_def
        initialize_def Let_def)

lemma ParamHeaveside_forward3_total:
  "\<exists>out p'. ParamHeaveside_forward3 p x = Inr (out, p')"
proof -
  obtain out p' where "ParamHeaveside_forward p (concat x) = Inr (out, p')"
    using ParamHeaveside_forward_total by blast
  then show ?thesis by (simp add: ParamHeaveside_forward3_def)
qed

lemma ParamHeaveside_forward4_total:
  "\<exists>out p'. ParamHeaveside_forward4 p x = Inr (out, p')"
proof -
  obtain out p' where "ParamHeaveside_forward3 p (concat x) = Inr (out, p')"
    using ParamHeaveside_forward3_total by blast
  then show ?thesis by (simp add: ParamHeaveside_forward4_def)
qed

lemma ParamHeaveside_forward3_not_Inl [simp]: "ParamHeaveside_forward3 p x \<noteq> Inl e"
  using ParamHeaveside_forward3_total [of p x] by auto

lemma ParamHeaveside_forward4_not_Inl [simp]: "ParamHeaveside_forward4 p x \<noteq> Inl e"
  using ParamHeaveside_forward4_total [of p x] by auto

lemma CausalSelfAttention_forward_nocache_total:
  "\<exists>r. CausalSelfAttention_forward a x rope m amask ipos None = Inr r"
  unfolding CausalSelfAttention_forward_def ebind_def Let_def
  by (simp split: prod.splits sum.splits)

lemma CausalSelfAttention_forward_cache_without_positions:
  "CausalSelfAttention_forward a x rope m amask None (Some kvc) =
     Inl (TypeError ''NoneType object is not subscriptable'')"
  unfolding CausalSelfAttention_forward_def ebind_def Let_def
  by (simp split: prod.splits sum.splits)

text \<open>
  Claim C8 does not hold for \<open>Block_forward\<close>: the check of the configuration comes
  after the call of the attention sublayer, so the failure is not immediate and the
  error need not be the descriptive one. On a block whose configuration combines
  sequential residual with shared attention norm, called with a key/value cache and no
  positions, the attention sublayer raises its \<open>TypeError\<close> and that is what
  \<open>Block_forward\<close> returns.
\<close>

theorem Block_forward_attention_error_counterexample:
  "\<not> parallel_residual (block_config
       (example_block\<lparr>block_config := example_config\<lparr>parallel_residual := False,
          shared_attention_norm := True\<rparr>\<rparr>)) \<and>
   shared_attention_norm (block_config
       (example_block\<lparr>block_config := example_config\<lparr>parallel_residual := False,
          shared_attention_norm := True\<rparr>\<rparr>)) \<and>
   Block_forward
     (example_block\<lparr>block_config := example_config\<lparr>parallel_residual := False,
        shared_attention_norm := True\<rparr>\<rparr>)
     [[[1, 2]]] ([[1]], [[0]]) 2 None None
     (Some ([[[[0, 0]], [[0, 0]]]], [[[[0, 0]], [[0, 0]]]])) =
     Inl (TypeError ''NoneType object is not subscriptable'')"
  by (simp add: Block_forward_def Let_def ebind_def
      CausalSelfAttention_forward_cache_without_positions)

text \<open>
  Claim C8, amended. \<open>QuantGPT_forward\<close> returns an assertion error when the sequence
  is longer than the block size, when \<open>max_seq_length\<close> is larger than the block size,
  and, with positions supplied, when the sequence is longer than \<open>max_seq_length\<close>
  (then with the message of the first assertion). \<open>Block_forward\<close> on a
  configuration with sequential residual and shared attention norm never returns a
  result, but it runs the attention sublayer first: it returns the error of the
  attention sublayer when that fails, and the \<open>NotImplementedError\<close> with its
  message only once the attention sublayer has returned.
\<close>

theorem forward_failure_conditions:
  "(block_size (gpt_config self) < sz1 idx \<longrightarrow>
      (\<exists>msg. QuantGPT_forward self idx m pos = Inl (AssertionError msg))) \<and>
   (block_size (gpt_config self) < M \<longrightarrow>
      (\<exists>msg. QuantGPT_forward self idx (Some M) pos = Inl (AssertionError msg))) \<and>
   (M < sz1 idx \<longrightarrow>
      QuantGPT_forward self idx (Some M) (Some p) =
        Inl (AssertionError (''Cannot forward sequence of length '' @ str_nat (sz1 idx) @
              '', max seq length is only '' @ str_nat M))) \<and>
   (\<not> parallel_residual (block_config b) \<and> shared_attention_norm (block_config b) \<longrightarrow>
      Block_forward b x rope M amask ipos kv =
        (case CausalSelfAttention_forward (block_attn b) (MyNorm_forward (norm_1 b) x) rope M
                amask ipos kv of
           Inl e \<Rightarrow> Inl e
         | Inr r \<Rightarrow> Inl (NotImplementedError
             (''No checkpoint amongst the ones we support uses this configuration'' @
              '' (non-parallel residual and shared attention norm).''))))"
proof (intro conjI impI)
  assume "block_size (gpt_config self) < sz1 idx"
  then show "\<exists>msg. QuantGPT_forward self idx m pos = Inl (AssertionError msg)"
    by (auto simp add: QuantGPT_forward_def Let_def split: option.splits)
next
  assume "block_size (gpt_config self) < M"
  then show "\<exists>msg. QuantGPT_forward self idx (Some M) pos = Inl (AssertionError msg)"
    by (auto simp add: QuantGPT_forward_def Let_def split: option.splits)
next
  assume "M < sz1 idx"
  then show "QuantGPT_forward self idx (Some M) (Some p) =
        Inl (AssertionError (''Cannot forward sequence of length '' @ str_nat (sz1 idx) @
              '', max seq length is only '' @ str_nat M))"
    by (simp add: QuantGPT_forward_def Let_def)
next
  assume "\<not> parallel_residual (block_config b) \<and> shared_attention_norm (block_config b)"
  then show "Block_forward b x rope M amask ipos kv =
        (case CausalSelfAttention_forward (block_attn b) (MyNorm_forward (norm_1 b) x) rope M
                amask ipos kv of
           Inl e \<Rightarrow> Inl e
         | Inr r \<Rightarrow> Inl (NotImplementedError
             (''No checkpoint amongst the ones we support uses this configuration'' @
              '' (non-parallel residual and shared attention norm).'')))"
    by (auto simp add: Block_forward_def Let_def ebind_def split: sum.splits prod.splits)
qed

theorem forward_failure_conditions_witness:
  "QuantGPT_forward example_model [[0, 0, 0]] None None =
     Inl (AssertionError ''Cannot forward sequence of length 3, block size is only 2'') \<and>
   QuantGPT_forward example_model [[0]] (Some 3) None =
     Inl (AssertionError ''Cannot attend to 3, block size is only 2'') \<and>
   QuantGPT_forward example_model [[0, 0, 0]] (Some 2) (Some [0, 0, 0]) =
     Inl (AssertionError ''Cannot forward sequence of length 3, max seq length is only 2'') \<and>
   Block_forward
     (example_block\<lparr>block_config := example_config\<lparr>parallel_residual := False,
        shared_attention_norm := True\<rparr>\<rparr>)
     [[[1, 2]]] ([[1]], [[0]]) 2 None None None =
     Inl (NotImplementedError
       (''No checkpoint amongst the ones we support uses this configuration'' @
        '' (non-parallel residual and shared attention norm).''))"
proof -
  let ?b = "example_block\<lparr>block_config := example_config\<lparr>parallel_residual := False,
        shared_attention_norm := True\<rparr>\<rparr>"
  have cfg: "block_size (gpt_config example_model) = 2"
    by (simp add: example_model_def example_config_def)
  have s3: "str_nat 3 = ''3''" and s2: "str_nat 2 = ''2''"
    by (subst str_nat.simps, simp add: digit_char_def)+
  have z3: "sz1 [[0, 0, 0 :: nat]] = 3" and z1: "sz1 [[0 :: nat]] = 1"
    by (simp_all add: sz1_def)
  have a: "QuantGPT_forward example_model [[0, 0, 0]] None None =
     Inl (AssertionError ''Cannot forward sequence of length 3, block size is only 2'')"
    unfolding QuantGPT_forward_def Let_def cfg z3 by (simp add: s3 s2)
  have b: "QuantGPT_forward example_model [[0]] (Some 3) None =
     Inl (AssertionError ''Cannot attend to 3, block size is only 2'')"
    unfolding QuantGPT_forward_def Let_def cfg z1 by (simp add: s3 s2)
  have hyp: "\<not> parallel_residual (block_config ?b) \<and> shared_attention_norm (block_config ?b)"
    by simp
  obtain r where r: "CausalSelfAttention_forward (block_attn ?b)
      (MyNorm_forward (norm_1 ?b) [[[1, 2]]]) ([[1]], [[0]]) 2 None None None = Inr r"
    using CausalSelfAttention_forward_nocache_total by blast
  have lt: "(2::nat) < sz1 [[0, 0, 0 :: nat]]" by (simp add: z3)
  from forward_failure_conditions
    [of example_model "[[0, 0, 0]]" None None 2 "[0, 0, 0]" ?b "[[[1, 2]]]" "([[1]], [[0]])" None None None]
    lt
  have c: "QuantGPT_forward example_model [[0, 0, 0]] (Some 2) (Some [0, 0, 0]) =
     Inl (AssertionError ''Cannot forward sequence of length 3, max seq length is only 2'')"
    unfolding z3 by (simp add: s2 s3)
  from forward_failure_conditions
    [of example_model "[[0, 1]]" None None 2 "[0, 1]" ?b "[[[1, 2]]]" "([[1]], [[0]])" None None None]
    hyp r
  have d: "Block_forward ?b [[[1, 2]]] ([[1]], [[0]]) 2 None None None =
     Inl (NotImplementedError
       (''No checkpoint amongst the ones we support uses this configuration'' @
        '' (non-parallel residual and shared attention norm).''))"
    by simp
  from a b c d show ?thesis by blast
qed

section \<open>The feed-forward sublayer of a block\<close>

text \<open>
  Claim C10 as stated fails: a configuration that selects the gated variant still
  gets the spiking MLP.
\<close>

theorem block_mlp_ignores_configuration_counterexample:
  "mlp_class (example_config\<lparr>mlp_class := ''LLaMAMLP''\<rparr>) = ''LLaMAMLP'' \<and>
   mlp_class_name (mlp (Block_init example_values (example_config\<lparr>mlp_class := ''LLaMAMLP''\<rparr>)))
     = ''GptNeoxMLP'' \<and>
   mlp_class_name (mlp (Block_init example_values (example_config\<lparr>mlp_class := ''LLaMAMLP''\<rparr>)))
     \<noteq> mlp_class (example_config\<lparr>mlp_class := ''LLaMAMLP''\<rparr>)"
  by (simp add: Block_init_def)

text \<open>
  Claim C10, amended. The feed-forward sublayer that \<open>Block_init\<close> builds is the
  spiking MLP whatever the configuration says, with the first spiking activation
  sized to the embedding width and the second to the intermediate width; and the
  spiking MLP computes \<open>proj(act2(fc(act1(x))))\<close>: every call returns, and its output
  is the normalised projection of the second activation's output, which is computed
  from the linear expansion of the first activation's output.
\<close>

theorem block_mlp_is_spiking_mlp:
  "mlp (Block_init g cfg) = Mlp_GptNeox (GptNeoxMLP_init g cfg) \<and>
   length (zero_point (act1 (GptNeoxMLP_init g cfg))) = n_embd cfg \<and>
   length (data (embed_scale (act1 (GptNeoxMLP_init g cfg)))) = n_embd cfg \<and>
   length (zero_point (act2 (GptNeoxMLP_init g cfg))) = intermediate_size cfg \<and>
   length (data (embed_scale (act2 (GptNeoxMLP_init g cfg)))) = intermediate_size cfg \<and>
   (\<exists>x1 a1 x3 a2.
      ParamHeaveside_forward3 (act1 m) x = Inr (x1, a1) \<and>
      ParamHeaveside_forward3 (act2 m) (Linear_forward (fc m) x1) = Inr (x3, a2) \<and>
      GptNeoxMLP_forward m x =
        Inr (NormedLinear_forward (mlp_proj m) x3, m\<lparr>act1 := a1, act2 := a2\<rparr>))"
proof -
  obtain x1 a1 where 1: "ParamHeaveside_forward3 (act1 m) x = Inr (x1, a1)"
    using ParamHeaveside_forward3_total by blast
  obtain x3 a2 where 2: "ParamHeaveside_forward3 (act2 m) (Linear_forward (fc m) x1) = Inr (x3, a2)"
    using ParamHeaveside_forward3_total by blast
  have 3: "GptNeoxMLP_forward m x =
        Inr (NormedLinear_forward (mlp_proj m) x3, m\<lparr>act1 := a1, act2 := a2\<rparr>)"
    by (simp add: GptNeoxMLP_forward_def ebind_def 1 2 Let_def)
  have 4: "mlp (Block_init g cfg) = Mlp_GptNeox (GptNeoxMLP_init g cfg)"
    by (simp add: Block_init_def)
  have 5: "length (zero_point (act1 (GptNeoxMLP_init g cfg))) = n_embd cfg"
      "length (data (embed_scale (act1 (GptNeoxMLP_init g cfg)))) = n_embd cfg"
      "length (zero_point (act2 (GptNeoxMLP_init g cfg))) = intermediate_size cfg"
      "length (data (embed_scale (act2 (GptNeoxMLP_init g cfg)))) = intermediate_size cfg"
    by (simp_all add: GptNeoxMLP_init_def ParamHeaveside_init_def AlphaInit_init_def)
  from 1 2 3 4 5 show ?thesis by blast
qed

section \<open>Normalised linear projection\<close>

lemma map2_nth: "i < length xs \<Longrightarrow> i < length ys \<Longrightarrow> map2 f xs ys ! i = f (xs ! i) (ys ! i)"
  by simp

lemma sz1_shape2: "shape2 a b t \<Longrightarrow> 0 < a \<Longrightarrow> sz1 t = b"
  by (cases t) (auto simp add: shape2_def sz1_def)

lemma mean_dim0_nth:
  "shape2 a b w \<Longrightarrow> 0 < a \<Longrightarrow> i < b \<Longrightarrow> mean_dim0 w ! i = (\<Sum>r\<leftarrow>w. r ! i) / real a"
  by (simp add: mean_dim0_def sz1_shape2) (simp add: shape2_def)

lemma length_mean_dim0: "shape2 a b w \<Longrightarrow> 0 < a \<Longrightarrow> length (mean_dim0 w) = b"
  by (simp add: mean_dim0_def sz1_shape2)

lemma center_dim0_col:
  assumes "shape2 a b w" "0 < a" "i < b"
  shows "map (\<lambda>r. r ! i) (center_dim0 w) = map (\<lambda>r. r ! i - (\<Sum>r\<leftarrow>w. r ! i) / real a) w"
proof -
  have "\<And>r. r \<in> set w \<Longrightarrow> map2 (\<lambda>v m. v - m) r (mean_dim0 w) ! i = r ! i - (\<Sum>r\<leftarrow>w. r ! i) / real a"
  proof -
    fix r assume "r \<in> set w"
    then have "length r = b" using assms(1) by (simp add: shape2_def)
    then show "map2 (\<lambda>v m. v - m) r (mean_dim0 w) ! i = r ! i - (\<Sum>r\<leftarrow>w. r ! i) / real a"
      using assms by (simp add: length_mean_dim0 mean_dim0_nth)
  qed
  then show ?thesis by (simp add: center_dim0_def)
qed

lemma shape2_center_dim0: "shape2 a b w \<Longrightarrow> 0 < a \<Longrightarrow> shape2 a b (center_dim0 w)"
  using length_mean_dim0 [of a b w] by (auto simp add: center_dim0_def shape2_def)

lemma sum_list_sub_const:
  "(\<Sum>r\<leftarrow>w. f r - (c::real)) = (\<Sum>r\<leftarrow>w. f r) - real (length w) * c"
  by (induction w) (auto simp add: algebra_simps)

lemma center_dim0_col_sum:
  assumes "shape2 a b w" "0 < a" "i < b"
  shows "(\<Sum>r\<leftarrow>center_dim0 w. r ! i) = 0"
proof -
  have "sum_list (map (\<lambda>r. r ! i) (center_dim0 w)) = (\<Sum>r\<leftarrow>w. r ! i - (\<Sum>r\<leftarrow>w. r ! i) / real a)"
    by (simp only: center_dim0_col [OF assms])
  also have "\<dots> = 0"
    using assms by (simp add: sum_list_sub_const shape2_def)
  finally show ?thesis .
qed

lemma norm_dim0_nth:
  "shape2 a b w \<Longrightarrow> 0 < a \<Longrightarrow> i < b \<Longrightarrow> norm_dim0 w ! i = sqrt (\<Sum>r\<leftarrow>w. (r ! i)\<^sup>2)"
  by (simp add: norm_dim0_def sz1_shape2)

lemma length_norm_dim0: "shape2 a b w \<Longrightarrow> 0 < a \<Longrightarrow> length (norm_dim0 w) = b"
  by (simp add: norm_dim0_def sz1_shape2)

lemma F_normalize_dim0_col:
  assumes "shape2 a b w" "0 < a" "i < b"
  shows "map (\<lambda>r. r ! i) (F_normalize_dim0 w) =
         map (\<lambda>r. r ! i / max (sqrt (\<Sum>r\<leftarrow>w. (r ! i)\<^sup>2)) normalize_eps) w"
proof -
  have "\<And>r. r \<in> set w \<Longrightarrow> map2 (\<lambda>v n. v / max n normalize_eps) r (norm_dim0 w) ! i
        = r ! i / max (sqrt (\<Sum>r\<leftarrow>w. (r ! i)\<^sup>2)) normalize_eps"
  proof -
    fix r assume "r \<in> set w"
    then have "length r = b" using assms(1) by (simp add: shape2_def)
    then show "map2 (\<lambda>v n. v / max n normalize_eps) r (norm_dim0 w) ! i
        = r ! i / max (sqrt (\<Sum>r\<leftarrow>w. (r ! i)\<^sup>2)) normalize_eps"
      using assms by (simp add: length_norm_dim0 norm_dim0_nth)
  qed
  then show ?thesis by (simp add: F_normalize_dim0_def)
qed

lemma sum_list_div_const: "(\<Sum>r\<leftarrow>w. f r / (c::real)) = (\<Sum>r\<leftarrow>w. f r) / c"
  by (induction w) (auto simp add: add_divide_distrib)

lemma normed_weight_col_sum:
  assumes "shape2 a b w" "0 < a" "i < b"
  shows "(\<Sum>r\<leftarrow>normed_weight w. r ! i) = 0"
proof -
  have c: "shape2 a b (center_dim0 w)" using assms by (simp add: shape2_center_dim0)
  have "sum_list (map (\<lambda>r. r ! i) (normed_weight w))
        = (\<Sum>r\<leftarrow>center_dim0 w. r ! i) / max (sqrt (\<Sum>r\<leftarrow>center_dim0 w. (r ! i)\<^sup>2)) normalize_eps"
    unfolding normed_weight_def
    by (simp only: F_normalize_dim0_col [OF c assms(2,3)] sum_list_div_const)
  also have "\<dots> = 0"
    by (simp add: center_dim0_col_sum [OF assms])
  finally show ?thesis .
qed

lemma normed_weight_col_norm:
  assumes "shape2 a b w" "0 < a" "i < b"
    and big: "normalize_eps \<le> sqrt (\<Sum>r\<leftarrow>center_dim0 w. (r ! i)\<^sup>2)"
  shows "sqrt (\<Sum>r\<leftarrow>normed_weight w. (r ! i)\<^sup>2) = 1"
proof -
  let ?n = "sqrt (\<Sum>r\<leftarrow>center_dim0 w. (r ! i)\<^sup>2)"
  have c: "shape2 a b (center_dim0 w)" using assms by (simp add: shape2_center_dim0)
  have "0 < normalize_eps" by (simp add: normalize_eps_def)
  then have pos: "0 < ?n" using big by linarith
  have nn: "0 \<le> (\<Sum>r\<leftarrow>center_dim0 w. (r ! i)\<^sup>2)"
    by (rule sum_list_nonneg) auto
  have mx: "max ?n normalize_eps = ?n" using big by (simp add: max_def)
  have "sum_list (map (\<lambda>r. (r ! i)\<^sup>2) (normed_weight w)) =
        sum_list (map (\<lambda>v. v\<^sup>2) (map (\<lambda>r. r ! i) (F_normalize_dim0 (center_dim0 w))))"
    by (simp add: normed_weight_def comp_def)
  also have "\<dots> = (\<Sum>r\<leftarrow>center_dim0 w. (r ! i)\<^sup>2 / ?n\<^sup>2)"
    by (simp only: F_normalize_dim0_col [OF c assms(2,3)] mx) (simp add: comp_def power_divide)
  also have "\<dots> = (\<Sum>r\<leftarrow>center_dim0 w. (r ! i)\<^sup>2) / ?n\<^sup>2"
    by (rule sum_list_div_const)
  also have "\<dots> = 1"
    using pos nn by simp
  finally show ?thesis by simp
qed

lemma normalize_eps_le_sqrt2: "normalize_eps \<le> sqrt 2"
proof -
  have "normalize_eps \<le> 1" by (simp add: normalize_eps_def)
  also have "(1::real) \<le> sqrt 2" by simp
  finally show ?thesis .
qed

text \<open>
  Claim C5 as stated fails. For the 1 by 1 weight \<open>[[5]]\<close> the centred weight is
  zero, so the transformed weight is zero and its L2 norm is 0, not 1. For the weight
  with rows \<open>[1, 3]\<close> and \<open>[3, 5]\<close> both entries of the first output row of the
  transformed weight are \<open>- 1 / sqrt 2\<close>, so that row's mean is not 0.
\<close>

theorem normed_weight_rows_counterexample:
  "sqrt (\<Sum>v\<leftarrow>normed_weight [[5]] ! 0. v\<^sup>2) \<noteq> 1 \<and>
   (\<Sum>v\<leftarrow>normed_weight [[1, 3], [3, 5]] ! 0. v) / 2 \<noteq> 0"
proof -
  have e: "max (sqrt 2) normalize_eps = sqrt 2"
    using normalize_eps_le_sqrt2 by (simp add: max_def)
  have a: "normed_weight [[5]] = [[0]]"
    by (simp add: normed_weight_def F_normalize_dim0_def center_dim0_def mean_dim0_def
        norm_dim0_def sz1_def)
  have b: "normed_weight [[1, 3], [3, 5]] = [[- 1 / sqrt 2, - 1 / sqrt 2], [1 / sqrt 2, 1 / sqrt 2]]"
    by (simp add: normed_weight_def F_normalize_dim0_def center_dim0_def mean_dim0_def
        norm_dim0_def sz1_def e)
  show ?thesis by (simp add: a b)
qed

text \<open>
  Claim C5, amended. \<open>NormedLinear_forward\<close> is the affine map with weight
  \<open>s\<close> times the transformed weight and the optional bias. For a weight matrix with
  at least one output row, every column of the transformed weight (the entries of one
  input unit along the output axis) has zero mean, and has unit L2 norm whenever the
  norm of the centred column is at least the \<open>eps\<close> of the normalisation, \<open>1e-12\<close>.
\<close>

theorem NormedLinear_weight_normalised:
  assumes "shape2 n_out n_in (weight self)" and "0 < n_out" and "i < n_in"
  shows "NormedLinear_forward self x =
           F_linear x (map (map (\<lambda>v. scale self * v))
             (F_normalize_dim0 (center_dim0 (weight self)))) (bias self) \<and>
         (\<Sum>r\<leftarrow>normed_weight (weight self). r ! i) / real n_out = 0 \<and>
         (normalize_eps \<le> sqrt (\<Sum>r\<leftarrow>center_dim0 (weight self). (r ! i)\<^sup>2) \<longrightarrow>
            sqrt (\<Sum>r\<leftarrow>normed_weight (weight self). (r ! i)\<^sup>2) = 1)"
proof (intro conjI impI)
  show "NormedLinear_forward self x =
           F_linear x (map (map (\<lambda>v. scale self * v))
             (F_normalize_dim0 (center_dim0 (weight self)))) (bias self)"
    by (simp add: NormedLinear_forward_def effective_weight_def normed_weight_def)
  show "(\<Sum>r\<leftarrow>normed_weight (weight self). r ! i) / real n_out = 0"
    by (simp add: normed_weight_col_sum [OF assms])
  assume "normalize_eps \<le> sqrt (\<Sum>r\<leftarrow>center_dim0 (weight self). (r ! i)\<^sup>2)"
  then show "sqrt (\<Sum>r\<leftarrow>normed_weight (weight self). (r ! i)\<^sup>2) = 1"
    by (rule normed_weight_col_norm [OF assms])
qed

theorem NormedLinear_weight_normalised_witness:
  "shape2 2 2 [[1, 3], [3, 5 :: real]] \<and>
   (\<Sum>r\<leftarrow>normed_weight [[1, 3], [3, 5]]. r ! 0) / 2 = 0 \<and>
   sqrt (\<Sum>r\<leftarrow>normed_weight [[1, 3], [3, 5]]. (r ! 0)\<^sup>2) = 1"
proof -
  let ?l = "\<lparr>weight = [[1, 3], [3, 5]], bias = None, scale = 1 / 100\<rparr>"
  have sh: "shape2 2 2 (weight ?l)" by (simp add: shape2_def)
  have c: "center_dim0 [[1, 3], [3, 5]] = [[- 1, - 1], [1, 1]]"
    by (simp add: center_dim0_def mean_dim0_def sz1_def)
  have big: "normalize_eps \<le> sqrt (\<Sum>r\<leftarrow>center_dim0 (weight ?l). (r ! 0)\<^sup>2)"
    using normalize_eps_le_sqrt2 by (simp add: c)
  from NormedLinear_weight_normalised [OF sh, of 0 "[]"] big sh
  show ?thesis by simp
qed

section \<open>The spiking activation: forward and backward\<close>

lemma sub_beta_nth:
  "i < length x \<Longrightarrow> c < length (x ! i) \<Longrightarrow> c < length beta \<Longrightarrow>
   sub_beta beta x ! i ! c = x ! i ! c - beta ! c"
  by (simp add: sub_beta_def)

lemma mul_alpha_positive_nth:
  "i < length x \<Longrightarrow> c < length (x ! i) \<Longrightarrow> c < length beta \<Longrightarrow> c < length al \<Longrightarrow>
   mul_alpha al (positive_float (sub_beta beta x)) ! i ! c =
     al ! c * (if x ! i ! c - beta ! c > 0 then 1 else 0)"
  by (simp add: mul_alpha_def positive_float_def sub_beta_def)

lemma uq_forward_cases:
  "\<exists>a'. uq_forward x a beta =
      Inr (mul_alpha (data a') (positive_float (sub_beta beta x)), (sub_beta beta x, data a'), a') \<and>
      length (data a') = length (data a)"
  by (cases "initialized a")
     (simp_all add: uq_forward_def initialize_wrapper_def initialize_def Let_def abs_mean_dim0_def)

lemma ew3_nth:
  "i < length y \<Longrightarrow> i < length g \<Longrightarrow> c < length al \<Longrightarrow> c < length (y ! i) \<Longrightarrow> c < length (g ! i) \<Longrightarrow>
   ew3 f al y g ! i ! c = f (al ! c) (y ! i ! c) (g ! i ! c)"
  by (simp add: ew3_def)

lemma sum_to_size_nth: "c < n \<Longrightarrow> sum_to_size n g ! c = (\<Sum>r\<leftarrow>g. r ! c)"
  by (simp add: sum_to_size_def)

lemma sum_list_rows_nth:
  "(\<Sum>r\<leftarrow>t. f r) = (\<Sum>j\<leftarrow>[0..<length t]. f (t ! j))"
proof -
  have "map f t = map (\<lambda>j. f (t ! j)) [0..<length t]"
    by (rule nth_equalityI) simp_all
  then show ?thesis by simp
qed

lemma ew3_length: "length (ew3 f al y g) = min (length y) (length g)"
  by (simp add: ew3_def)

lemma ew3_col_sum:
  assumes "shape2 n ch y" "shape2 n ch g" "length al = ch" "c < ch"
  shows "(\<Sum>r\<leftarrow>ew3 f al y g. r ! c) = (\<Sum>j\<leftarrow>[0..<n]. f (al ! c) (y ! j ! c) (g ! j ! c))"
proof -
  have len: "length (ew3 f al y g) = n" using assms by (simp add: ew3_length shape2_def)
  have "(\<Sum>r\<leftarrow>ew3 f al y g. r ! c) = (\<Sum>j\<leftarrow>[0..<n]. ew3 f al y g ! j ! c)"
    using sum_list_rows_nth [of "\<lambda>r. r ! c" "ew3 f al y g"] len by simp
  also have "\<dots> = (\<Sum>j\<leftarrow>[0..<n]. f (al ! c) (y ! j ! c) (g ! j ! c))"
  proof (rule arg_cong [where f = sum_list], rule map_cong [OF refl])
    fix j assume "j \<in> set [0..<n]"
    then have "j < n" by simp
    then show "ew3 f al y g ! j ! c = f (al ! c) (y ! j ! c) (g ! j ! c)"
      using assms by (simp add: ew3_nth shape2_def)
  qed
  finally show ?thesis .
qed

lemma shape2_sub_beta: "shape2 n ch x \<Longrightarrow> length beta = ch \<Longrightarrow> shape2 n ch (sub_beta beta x)"
  by (simp add: shape2_def sub_beta_def)

text \<open>
  Claim C4. On a batch of \<open>n\<close> rows over \<open>ch\<close> channels the forward pass returns,
  and every output entry is the channel's \<open>alpha\<close> (as the call leaves it) times the
  indicator of \<open>x - beta > 0\<close>, hence 0 or that \<open>alpha\<close>. The backward pass on the
  saved tensors returns, entry by entry,
  \<open>grad_x = g * alpha * s / (pi * ((s * (x - beta))\<^sup>2 + 1))\<close>, \<open>grad_beta = - grad_x\<close>
  and \<open>grad_alpha = g * (1 / pi * arctan (x - beta) + 1 / 2)\<close>; summed over the batch
  to the parameters' shape, the gradients of \<open>alpha\<close> and \<open>beta\<close> are the sums of these
  entries over the rows.
\<close>

theorem spiking_activation_forward_backward:
  assumes x: "shape2 n ch x" and g: "shape2 n ch g"
    and beta: "length beta = ch" and al: "length (data a) = ch"
    and i: "i < n" and c: "c < ch"
  shows "\<exists>out ctx a' gx ga gb.
           uq_forward x a beta = Inr (out, ctx, a') \<and>
           out ! i ! c = data a' ! c * (if x ! i ! c - beta ! c > 0 then 1 else 0) \<and>
           (out ! i ! c = 0 \<or> out ! i ! c = data a' ! c) \<and>
           uq_backward s ctx g = (gx, ga, gb) \<and>
           gx ! i ! c = g ! i ! c * data a' ! c * s / (pi * ((s * (x ! i ! c - beta ! c))\<^sup>2 + 1)) \<and>
           gb ! i ! c = - gx ! i ! c \<and>
           ga ! i ! c = g ! i ! c * (1 / pi * arctan (x ! i ! c - beta ! c) + 1 / 2) \<and>
           sum_to_size ch ga ! c =
             (\<Sum>j\<leftarrow>[0..<n]. g ! j ! c * (1 / pi * arctan (x ! j ! c - beta ! c) + 1 / 2)) \<and>
           sum_to_size ch gb ! c =
             (\<Sum>j\<leftarrow>[0..<n]. - (g ! j ! c * data a' ! c * s / (pi * ((s * (x ! j ! c - beta ! c))\<^sup>2 + 1))))"
proof -
  obtain a' where fw: "uq_forward x a beta =
      Inr (mul_alpha (data a') (positive_float (sub_beta beta x)), (sub_beta beta x, data a'), a')"
    and la: "length (data a') = length (data a)"
    using uq_forward_cases by blast
  let ?y = "sub_beta beta x"
  let ?out = "mul_alpha (data a') (positive_float ?y)"
  have lx: "i < length x" "c < length (x ! i)" "i < length g" "c < length (g ! i)"
    using x g i c by (auto simp add: shape2_def)
  have ly: "i < length ?y" "c < length (?y ! i)"
    using lx beta c by (simp_all add: sub_beta_def)
  have lb: "c < length beta" "c < length (data a')" using beta al la c by simp_all
  have o: "?out ! i ! c = data a' ! c * (if x ! i ! c - beta ! c > 0 then 1 else 0)"
    using lx lb by (simp add: mul_alpha_positive_nth)
  have yv: "\<And>j. j < n \<Longrightarrow> ?y ! j ! c = x ! j ! c - beta ! c"
    using x lb c by (simp add: sub_beta_nth shape2_def)
  have shy: "shape2 n ch ?y" using x beta by (rule shape2_sub_beta)
  have la': "length (data a') = ch" using la al by simp
  obtain gx ga gb where bw: "uq_backward s (?y, data a') g = (gx, ga, gb)"
    and gx: "gx = ew3 (\<lambda>a yv gv. a * arctan_d s yv * gv) (data a') ?y g"
    and ga: "ga = ew3 (\<lambda>a yv gv. alpha_d yv * gv) (data a') ?y g"
    and gb: "gb = ew3 (\<lambda>a yv gv. - a * arctan_d s yv * gv) (data a') ?y g"
    by (simp add: uq_backward_def Let_def)
  have 1: "gx ! i ! c = g ! i ! c * data a' ! c * s / (pi * ((s * (x ! i ! c - beta ! c))\<^sup>2 + 1))"
    using lx ly lb i by (simp add: gx ew3_nth yv arctan_d_def)
  have 2: "gb ! i ! c = - gx ! i ! c"
    using lx ly lb by (simp add: gx gb ew3_nth)
  have 3: "ga ! i ! c = g ! i ! c * (1 / pi * arctan (x ! i ! c - beta ! c) + 1 / 2)"
    using lx ly lb i by (simp add: ga ew3_nth yv alpha_d_def)
  have 4: "sum_to_size ch ga ! c =
      (\<Sum>j\<leftarrow>[0..<n]. g ! j ! c * (1 / pi * arctan (x ! j ! c - beta ! c) + 1 / 2))"
  proof -
    have "sum_to_size ch ga ! c = (\<Sum>j\<leftarrow>[0..<n]. alpha_d (?y ! j ! c) * g ! j ! c)"
      using c by (simp add: sum_to_size_nth ga ew3_col_sum [OF shy g la' c])
    also have "\<dots> = (\<Sum>j\<leftarrow>[0..<n]. g ! j ! c * (1 / pi * arctan (x ! j ! c - beta ! c) + 1 / 2))"
      by (rule arg_cong [where f = sum_list], rule map_cong [OF refl])
         (simp add: yv alpha_d_def)
    finally show ?thesis .
  qed
  have 5: "sum_to_size ch gb ! c =
      (\<Sum>j\<leftarrow>[0..<n]. - (g ! j ! c * data a' ! c * s / (pi * ((s * (x ! j ! c - beta ! c))\<^sup>2 + 1))))"
  proof -
    have "sum_to_size ch gb ! c =
        (\<Sum>j\<leftarrow>[0..<n]. - (data a' ! c) * arctan_d s (?y ! j ! c) * g ! j ! c)"
      using c by (simp add: sum_to_size_nth gb ew3_col_sum [OF shy g la' c])
    also have "\<dots> =
        (\<Sum>j\<leftarrow>[0..<n]. - (g ! j ! c * data a' ! c * s / (pi * ((s * (x ! j ! c - beta ! c))\<^sup>2 + 1))))"
      by (rule arg_cong [where f = sum_list], rule map_cong [OF refl])
         (simp add: yv arctan_d_def)
    finally show ?thesis .
  qed
  have 6: "?out ! i ! c = 0 \<or> ?out ! i ! c = data a' ! c"
    using o by simp
  from fw o 6 bw 1 2 3 4 5 show ?thesis by blast
qed

theorem spiking_activation_forward_backward_witness:
  "shape2 2 2 [[1, - 3], [3, 5 :: real]] \<and>
   (\<exists>out ctx a' gx ga gb.
      uq_forward [[1, - 3], [3, 5]] \<lparr>data = [8, 16], initialized = True\<rparr> [0, 0] = Inr (out, ctx, a') \<and>
      a' = \<lparr>data = [8, 16], initialized = True\<rparr> \<and>
      out ! 0 ! 1 = 0 \<and> out ! 1 ! 1 = 16 \<and>
      uq_backward 4 ctx [[1, 1], [1, 1]] = (gx, ga, gb) \<and>
      gb ! 0 ! 1 = - gx ! 0 ! 1)"
proof -
  let ?x = "[[1, - 3], [3, 5 :: real]]"
  let ?g = "[[1, 1], [1, 1 :: real]]"
  let ?a = "\<lparr>data = [8, 16 :: real], initialized = True\<rparr>"
  have h1: "shape2 2 2 ?x" and h2: "shape2 2 2 ?g" by (simp_all add: shape2_def)
  have h3: "length [0, 0 :: real] = 2" and h4: "length (data ?a) = 2" by simp_all
  have fw: "uq_forward ?x ?a [0, 0] = Inr ([[8, 0], [8, 16]], ([[1, - 3], [3, 5]], [8, 16]), ?a)"
    by (simp add: uq_forward_def sub_beta_def positive_float_def mul_alpha_def Let_def)
  from spiking_activation_forward_backward [OF h1 h2 h3 h4, of 0 1 4]
  obtain out ctx a' gx ga gb where
    r: "uq_forward ?x ?a [0, 0] = Inr (out, ctx, a')"
       "uq_backward 4 ctx ?g = (gx, ga, gb)" "gb ! 0 ! 1 = - gx ! 0 ! 1"
    by auto
  from r(1) fw have e: "out = [[8, 0], [8, 16]]" "a' = ?a" by simp_all
  have "out ! 0 ! 1 = 0" "out ! 1 ! 1 = 16" by (simp_all add: e)
  with r e h1 show ?thesis by blast
qed

section \<open>Writing the key/value cache\<close>

lemma fold_update_length:
  "length (fold (\<lambda>(i, r) acc. acc[i := r]) ps c) = length c"
  by (induction ps arbitrary: c) (auto split: prod.splits)

lemma fold_update_other:
  "j \<notin> fst ` set ps \<Longrightarrow> fold (\<lambda>(i, r) acc. acc[i := r]) ps c ! j = c ! j"
  by (induction ps arbitrary: c) (auto split: prod.splits)

lemma fold_update_set:
  "set (fold (\<lambda>(i, r) acc. acc[i := r]) ps c) \<subseteq> set c \<union> snd ` set ps"
proof (induction ps arbitrary: c)
  case Nil
  then show ?case by simp
next
  case (Cons p ps)
  obtain i r where p: "p = (i, r)" by (cases p)
  have "set (c[i := r]) \<subseteq> insert r (set c)" by (rule set_update_subset_insert)
  with Cons [of "c[i := r]"] show ?case by (auto simp add: p)
qed

lemma fold_update_hit:
  assumes "distinct (map fst ps)" "t < length ps" "fst (ps ! t) < length c"
  shows "fold (\<lambda>(i, r) acc. acc[i := r]) ps c ! fst (ps ! t) = snd (ps ! t)"
  using assms
proof (induction ps arbitrary: c t)
  case Nil
  then show ?case by simp
next
  case (Cons p ps)
  obtain i r where p: "p = (i, r)" by (cases p)
  show ?case
  proof (cases t)
    case 0
    have "i \<notin> fst ` set ps" using Cons.prems(1) by (simp add: p)
    then have "fold (\<lambda>(i, r) acc. acc[i := r]) ps (c[i := r]) ! i = c[i := r] ! i"
      by (rule fold_update_other)
    with 0 Cons.prems(3) show ?thesis by (simp add: p)
  next
    case (Suc t')
    with Cons.prems have "distinct (map fst ps)" "t' < length ps" "fst (ps ! t') < length (c[i := r])"
      by simp_all
    from Cons.IH [OF this] Suc show ?thesis by (simp add: p)
  qed
qed

lemma zip_fst_set: "length idx = length src \<Longrightarrow> fst ` set (zip idx src) = set idx"
  by (induction idx src rule: list_induct2) auto

lemma zip_snd_set: "length idx = length src \<Longrightarrow> snd ` set (zip idx src) = set src"
  by (induction idx src rule: list_induct2) auto

text \<open>One batch element of a successful \<open>index_copy_1\<close>.\<close>

lemma index_copy_1_ok:
  assumes "shape2 B M self" "shape2 B T source" "length index = T" "\<forall>p\<in>set index. p < M"
  shows "index_copy_1 self index source =
           Inr (map2 (\<lambda>c src. fold (\<lambda>(i, r) acc. acc[i := r]) (zip index src) c) self source)"
  using assms by (auto simp add: index_copy_1_def shape2_def)

lemma index_copy_1_nth:
  assumes "shape2 B M self" "shape2 B T source" "length index = T" "\<forall>p\<in>set index. p < M" "b < B"
  shows "\<exists>res. index_copy_1 self index source = Inr res \<and> shape2 B M res \<and>
           res ! b = fold (\<lambda>(i, r) acc. acc[i := r]) (zip index (source ! b)) (self ! b) \<and>
           (\<forall>b'<B. set (res ! b') \<subseteq> set (self ! b') \<union> set (source ! b'))"
proof -
  let ?res = "map2 (\<lambda>c src. fold (\<lambda>(i, r) acc. acc[i := r]) (zip index src) c) self source"
  have ok: "index_copy_1 self index source = Inr ?res" using assms(1-4) by (rule index_copy_1_ok)
  have len: "length self = B" "length source = B" using assms by (simp_all add: shape2_def)
  have nth: "\<And>b'. b' < B \<Longrightarrow> ?res ! b' = fold (\<lambda>(i, r) acc. acc[i := r]) (zip index (source ! b')) (self ! b')"
    using len by simp
  have sh: "shape2 B M ?res"
    unfolding shape2_def
  proof (intro conjI ballI)
    show "length ?res = B" using len by simp
    fix r assume "r \<in> set ?res"
    then obtain b' where b': "b' < B" "r = ?res ! b'" using len by (auto simp add: in_set_conv_nth)
    then have "length r = length (self ! b')" by (simp add: nth fold_update_length)
    also have "\<dots> = M" using assms(1) b' len by (simp add: shape2_def)
    finally show "length r = M" .
  qed
  have sub: "\<forall>b'<B. set (?res ! b') \<subseteq> set (self ! b') \<union> set (source ! b')"
  proof (intro allI impI)
    fix b' assume b': "b' < B"
    have "length (source ! b') = T" using assms(2) b' len by (simp add: shape2_def)
    then have "snd ` set (zip index (source ! b')) = set (source ! b')"
      using assms(3) by (simp add: zip_snd_set)
    with fold_update_set [of "zip index (source ! b')" "self ! b'"] b'
    show "set (?res ! b') \<subseteq> set (self ! b') \<union> set (source ! b')" by (simp add: nth)
  qed
  from ok sh nth [OF assms(5)] sub show ?thesis by blast
qed

lemma shape4_shape2: "shape4 a b c d t \<Longrightarrow> shape2 a b t"
  by (simp add: shape4_def shape3_def shape2_def)

lemma shape4_slot: "shape4 a b c d t \<Longrightarrow> i < a \<Longrightarrow> s \<in> set (t ! i) \<Longrightarrow> shape2 c d s"
  by (auto simp add: shape4_def shape3_def)

lemma shape4_I:
  "shape2 a b t \<Longrightarrow> (\<And>i s. i < a \<Longrightarrow> s \<in> set (t ! i) \<Longrightarrow> shape2 c d s) \<Longrightarrow> shape4 a b c d t"
  unfolding shape4_def shape3_def shape2_def
  by (metis in_set_conv_nth)

lemma shape2_roll_left_1: "shape2 a b t \<Longrightarrow> shape2 a b (roll_left_1 t)"
  by (auto simp add: shape2_def roll_left_1_def)

lemma index_copy_1_shape4:
  assumes self: "shape4 B M G D self" and src: "shape4 B T G D source"
    and sub: "\<forall>b'<B. set (res ! b') \<subseteq> set (self ! b') \<union> set (source ! b')"
    and sh: "shape2 B M res"
  shows "shape4 B M G D res"
proof (rule shape4_I [OF sh])
  fix i s assume i: "i < B" and s: "s \<in> set (res ! i)"
  then have "s \<in> set (self ! i) \<or> s \<in> set (source ! i)" using sub by auto
  then show "shape2 G D s"
    using shape4_slot [OF self i] shape4_slot [OF src i] by auto
qed

lemma shape4_roll_left_1: "shape4 a b c d t \<Longrightarrow> shape4 a b c d (roll_left_1 t)"
  by (auto simp add: shape4_def shape3_def roll_left_1_def)

text \<open>The write of one tensor in the eviction branch (a single new slot).\<close>

lemma evict_write:
  assumes c: "shape4 B M G D cache" and k: "shape4 B 1 G D k" and M: "0 < M" and b: "b < B"
  shows "\<exists>res. index_copy_1 (roll_left_1 cache) [M - 1] k = Inr res \<and> shape4 B M G D res \<and>
           (\<forall>j<M - 1. res ! b ! j = cache ! b ! (j + 1)) \<and> res ! b ! (M - 1) = k ! b ! 0"
proof -
  have c2: "shape2 B M (roll_left_1 cache)"
    using c by (simp add: shape4_shape2 shape2_roll_left_1)
  have k2: "shape2 B 1 k" using k by (rule shape4_shape2)
  have idx: "length [M - 1] = 1" "\<forall>p\<in>set [M - 1]. p < M" using M by simp_all
  from index_copy_1_nth [OF c2 k2 idx b]
  obtain res where res: "index_copy_1 (roll_left_1 cache) [M - 1] k = Inr res" "shape2 B M res"
      "res ! b = fold (\<lambda>(i, r) acc. acc[i := r]) (zip [M - 1] (k ! b)) (roll_left_1 cache ! b)"
      "\<forall>b'<B. set (res ! b') \<subseteq> set (roll_left_1 cache ! b') \<union> set (k ! b')"
    by blast
  have lb: "length cache = B" "length (cache ! b) = M" "length (k ! b) = 1"
    using c k b by (simp_all add: shape4_def shape3_def)
  then obtain k0 where k0: "k ! b = [k0]" by (cases "k ! b") simp_all
  have rb: "res ! b = (rotate1 (cache ! b))[M - 1 := k0]"
    using res(3) b lb by (simp add: k0 roll_left_1_def)
  have sh4: "shape4 B M G D res"
    by (rule index_copy_1_shape4 [OF shape4_roll_left_1 [OF c] k res(4) res(2)])
  have shift: "\<forall>j<M - 1. res ! b ! j = cache ! b ! (j + 1)"
  proof (intro allI impI)
    fix j assume j: "j < M - 1"
    then have "res ! b ! j = rotate1 (cache ! b) ! j" by (simp add: rb)
    also have "\<dots> = cache ! b ! (Suc j mod M)" using j lb by (simp add: nth_rotate1)
    also have "Suc j mod M = j + 1" using j by simp
    finally show "res ! b ! j = cache ! b ! (j + 1)" .
  qed
  have lastw: "res ! b ! (M - 1) = k ! b ! 0"
    using M lb by (simp add: rb k0)
  from res(1) sh4 shift lastw show ?thesis by blast
qed

text \<open>The write of one tensor at the given positions.\<close>

lemma plain_write:
  assumes c: "shape4 B M G D cache" and k: "shape4 B T G D k" and pos: "length input_pos = T"
    and rng: "\<forall>p\<in>set input_pos. p < M" and dist: "distinct input_pos" and b: "b < B"
  shows "\<exists>res. index_copy_1 cache input_pos k = Inr res \<and> shape4 B M G D res \<and>
           (\<forall>t<T. res ! b ! (input_pos ! t) = k ! b ! t) \<and>
           (\<forall>j<M. j \<notin> set input_pos \<longrightarrow> res ! b ! j = cache ! b ! j)"
proof -
  have c2: "shape2 B M cache" using c by (rule shape4_shape2)
  have k2: "shape2 B T k" using k by (rule shape4_shape2)
  from index_copy_1_nth [OF c2 k2 pos rng b]
  obtain res where res: "index_copy_1 cache input_pos k = Inr res" "shape2 B M res"
      "res ! b = fold (\<lambda>(i, r) acc. acc[i := r]) (zip input_pos (k ! b)) (cache ! b)"
      "\<forall>b'<B. set (res ! b') \<subseteq> set (cache ! b') \<union> set (k ! b')"
    by blast
  have lb: "length (cache ! b) = M" "length (k ! b) = T"
    using c k b by (simp_all add: shape4_def shape3_def)
  have sh4: "shape4 B M G D res"
    by (rule index_copy_1_shape4 [OF c k res(4) res(2)])
  let ?ps = "zip input_pos (k ! b)"
  have fstps: "map fst ?ps = input_pos" using pos lb by simp
  have hit: "\<forall>t<T. res ! b ! (input_pos ! t) = k ! b ! t"
  proof (intro allI impI)
    fix t assume t: "t < T"
    have d: "distinct (map fst ?ps)" using dist fstps by simp
    have tl: "t < length ?ps" using t pos lb by simp
    have fl: "fst (?ps ! t) < length (cache ! b)" using t pos lb rng by simp
    from fold_update_hit [OF d tl fl] t pos lb
    show "res ! b ! (input_pos ! t) = k ! b ! t" by (simp add: res(3))
  qed
  have miss: "\<forall>j<M. j \<notin> set input_pos \<longrightarrow> res ! b ! j = cache ! b ! j"
  proof (intro allI impI)
    fix j assume "j < M" and j: "j \<notin> set input_pos"
    have "fst ` set ?ps = set input_pos" using pos lb by (simp add: zip_fst_set)
    with j have "j \<notin> fst ` set ?ps" by simp
    then show "res ! b ! j = cache ! b ! j" by (simp add: res(3) fold_update_other)
  qed
  from res(1) sh4 hit miss show ?thesis by blast
qed

text \<open>
  Claim C6 as stated fails: with capacity 2, the positions \<open>[1, 2]\<close> and two new
  keys and values, the last position reaches the capacity, the positions are replaced
  by the single index 1, and the write of two slots at one index is refused.
\<close>

theorem kv_cache_update_two_tokens_counterexample:
  "kv_cache_update 2 [1, 2] ([[[[0]], [[0]]]], [[[[0]], [[0]]]]) [[[[1]], [[2]]]] [[[[1]], [[2]]]] =
     Inl (RuntimeError ''index_copy_(): Number of indices should be equal to source.size(dim)'')"
  by (simp add: kv_cache_update_def index_copy_1_def ebind_def roll_left_1_def)

text \<open>
  Claim C6, amended. Caches of shape (batch, \<open>M\<close>, groups, width) with
  \<open>M = max_seq_length\<close>, and new keys and values for \<open>T\<close> positions. When the last
  position is \<open>M\<close> or more and a single position is written (\<open>T = 1\<close>), every slot
  moves one place to the left and the new key and value are stored in slot \<open>M - 1\<close>.
  When the positions are distinct and all below \<open>M\<close>, the new entries are stored at
  the positions of \<open>input_pos\<close> and every other slot keeps its content. In both cases
  the caches keep their shape.
\<close>

theorem kv_cache_update_slots:
  assumes ck: "shape4 B M G Dk cache_k" and cv: "shape4 B M G Dv cache_v"
    and k: "shape4 B T G Dk k" and v: "shape4 B T G Dv v"
    and pos: "length input_pos = T" and T: "0 < T" and b: "b < B"
  shows "(M \<le> last input_pos \<and> T = 1 \<and> 0 < M \<longrightarrow>
           (\<exists>ck' cv'. kv_cache_update M input_pos (cache_k, cache_v) k v = Inr (ck', cv') \<and>
              shape4 B M G Dk ck' \<and> shape4 B M G Dv cv' \<and>
              (\<forall>j<M - 1. ck' ! b ! j = cache_k ! b ! (j + 1) \<and> cv' ! b ! j = cache_v ! b ! (j + 1)) \<and>
              ck' ! b ! (M - 1) = k ! b ! 0 \<and> cv' ! b ! (M - 1) = v ! b ! 0)) \<and>
         ((\<forall>p\<in>set input_pos. p < M) \<and> distinct input_pos \<longrightarrow>
           (\<exists>ck' cv'. kv_cache_update M input_pos (cache_k, cache_v) k v = Inr (ck', cv') \<and>
              shape4 B M G Dk ck' \<and> shape4 B M G Dv cv' \<and>
              (\<forall>t<T. ck' ! b ! (input_pos ! t) = k ! b ! t \<and> cv' ! b ! (input_pos ! t) = v ! b ! t) \<and>
              (\<forall>j<M. j \<notin> set input_pos \<longrightarrow>
                 ck' ! b ! j = cache_k ! b ! j \<and> cv' ! b ! j = cache_v ! b ! j)))"
proof (intro conjI impI)
  have ne: "input_pos \<noteq> []" using pos T by auto
  {
    assume a: "M \<le> last input_pos \<and> T = 1 \<and> 0 < M"
    then have M: "0 < M" and T1: "T = 1" and ov: "M \<le> last input_pos" by simp_all
    from evict_write [OF ck k [unfolded T1] M b] obtain ck' where
      1: "index_copy_1 (roll_left_1 cache_k) [M - 1] k = Inr ck'" "shape4 B M G Dk ck'"
         "\<forall>j<M - 1. ck' ! b ! j = cache_k ! b ! (j + 1)" "ck' ! b ! (M - 1) = k ! b ! 0"
      by blast
    from evict_write [OF cv v [unfolded T1] M b] obtain cv' where
      2: "index_copy_1 (roll_left_1 cache_v) [M - 1] v = Inr cv'" "shape4 B M G Dv cv'"
         "\<forall>j<M - 1. cv' ! b ! j = cache_v ! b ! (j + 1)" "cv' ! b ! (M - 1) = v ! b ! 0"
      by blast
    have "kv_cache_update M input_pos (cache_k, cache_v) k v = Inr (ck', cv')"
      using ne ov M 1(1) 2(1) by (simp add: kv_cache_update_def ebind_def)
    with 1 2 show "\<exists>ck' cv'. kv_cache_update M input_pos (cache_k, cache_v) k v = Inr (ck', cv') \<and>
              shape4 B M G Dk ck' \<and> shape4 B M G Dv cv' \<and>
              (\<forall>j<M - 1. ck' ! b ! j = cache_k ! b ! (j + 1) \<and> cv' ! b ! j = cache_v ! b ! (j + 1)) \<and>
              ck' ! b ! (M - 1) = k ! b ! 0 \<and> cv' ! b ! (M - 1) = v ! b ! 0"
      by blast
  }
  {
    assume a: "(\<forall>p\<in>set input_pos. p < M) \<and> distinct input_pos"
    then have rng: "\<forall>p\<in>set input_pos. p < M" and dist: "distinct input_pos" by simp_all
    have nov: "\<not> M \<le> last input_pos" using rng ne by (simp add: not_le)
    from plain_write [OF ck k pos rng dist b] obtain ck' where
      1: "index_copy_1 cache_k input_pos k = Inr ck'" "shape4 B M G Dk ck'"
         "\<forall>t<T. ck' ! b ! (input_pos ! t) = k ! b ! t"
         "\<forall>j<M. j \<notin> set input_pos \<longrightarrow> ck' ! b ! j = cache_k ! b ! j"
      by blast
    from plain_write [OF cv v pos rng dist b] obtain cv' where
      2: "index_copy_1 cache_v input_pos v = Inr cv'" "shape4 B M G Dv cv'"
         "\<forall>t<T. cv' ! b ! (input_pos ! t) = v ! b ! t"
         "\<forall>j<M. j \<notin> set input_pos \<longrightarrow> cv' ! b ! j = cache_v ! b ! j"
      by blast
    have "kv_cache_update M input_pos (cache_k, cache_v) k v = Inr (ck', cv')"
      using ne nov 1(1) 2(1) by (simp add: kv_cache_update_def ebind_def)
    with 1 2 show "\<exists>ck' cv'. kv_cache_update M input_pos (cache_k, cache_v) k v = Inr (ck', cv') \<and>
              shape4 B M G Dk ck' \<and> shape4 B M G Dv cv' \<and>
              (\<forall>t<T. ck' ! b ! (input_pos ! t) = k ! b ! t \<and> cv' ! b ! (input_pos ! t) = v ! b ! t) \<and>
              (\<forall>j<M. j \<notin> set input_pos \<longrightarrow>
                 ck' ! b ! j = cache_k ! b ! j \<and> cv' ! b ! j = cache_v ! b ! j)"
      by blast
  }
qed

theorem kv_cache_update_slots_witness:
  "kv_cache_update 2 [2] ([[[[5]], [[6]]]], [[[[7]], [[8]]]]) [[[[1]]]] [[[[2]]]] =
     Inr ([[[[6]], [[1]]]], [[[[8]], [[2]]]]) \<and>
   kv_cache_update 2 [0] ([[[[5]], [[6]]]], [[[[7]], [[8]]]]) [[[[1]]]] [[[[2]]]] =
     Inr ([[[[1]], [[6]]]], [[[[2]], [[8]]]])"
proof -
  let ?ck = "[[[[5]], [[6 :: real]]]]" and ?cv = "[[[[7]], [[8 :: real]]]]"
  let ?k = "[[[[1 :: real]]]]" and ?v = "[[[[2 :: real]]]]"
  have h: "shape4 1 2 1 1 ?ck" "shape4 1 2 1 1 ?cv" "shape4 1 1 1 1 ?k" "shape4 1 1 1 1 ?v"
    by (simp_all add: shape4_def shape3_def shape2_def)
  have p: "length [2 :: nat] = 1" "length [0 :: nat] = 1" "(0 :: nat) < 1" by simp_all
  have a: "(2 :: nat) \<le> last [2] \<and> (1 :: nat) = 1 \<and> (0 :: nat) < 2" by simp
  have c: "(\<forall>p\<in>set [0 :: nat]. p < 2) \<and> distinct [0 :: nat]" by simp
  from kv_cache_update_slots [OF h p(1) p(3) p(3)] a
  obtain ck' cv' where 1: "kv_cache_update 2 [2] (?ck, ?cv) ?k ?v = Inr (ck', cv')"
    by blast
  from kv_cache_update_slots [OF h p(2) p(3) p(3)] c
  obtain ck2 cv2 where 2: "kv_cache_update 2 [0] (?ck, ?cv) ?k ?v = Inr (ck2, cv2)"
    by blast
  have e1: "kv_cache_update 2 [2] (?ck, ?cv) ?k ?v = Inr ([[[[6]], [[1]]]], [[[[8]], [[2]]]])"
    by (simp add: kv_cache_update_def index_copy_1_def ebind_def roll_left_1_def)
  have e2: "kv_cache_update 2 [0] (?ck, ?cv) ?k ?v = Inr ([[[[1]], [[6]]]], [[[[2]], [[8]]]])"
    by (simp add: kv_cache_update_def index_copy_1_def ebind_def roll_left_1_def)
  from 1 2 e1 e2 show ?thesis by simp
qed

section \<open>Attention scores\<close>

lemma shape2_nth: "shape2 a b t \<Longrightarrow> i < a \<Longrightarrow> length (t ! i) = b"
  by (simp add: shape2_def)

lemma shape2_length: "shape2 a b t \<Longrightarrow> length t = a"
  by (simp add: shape2_def)

lemma shape2_I: "length t = a \<Longrightarrow> (\<And>i. i < a \<Longrightarrow> length (t ! i) = b) \<Longrightarrow> shape2 a b t"
  unfolding shape2_def by (metis in_set_conv_nth)

lemma shape3_nth: "shape3 a b c t \<Longrightarrow> i < a \<Longrightarrow> shape2 b c (t ! i)"
  by (simp add: shape3_def)

lemma shape3_length: "shape3 a b c t \<Longrightarrow> length t = a"
  by (simp add: shape3_def)

lemma shape3_I: "length t = a \<Longrightarrow> (\<And>i. i < a \<Longrightarrow> shape2 b c (t ! i)) \<Longrightarrow> shape3 a b c t"
  unfolding shape3_def by (metis in_set_conv_nth)

lemma shape4_nth: "shape4 a b c d t \<Longrightarrow> i < a \<Longrightarrow> shape3 b c d (t ! i)"
  by (simp add: shape4_def)

lemma shape4_length: "shape4 a b c d t \<Longrightarrow> length t = a"
  by (simp add: shape4_def)

lemma shape4_intro: "length t = a \<Longrightarrow> (\<And>i. i < a \<Longrightarrow> shape3 b c d (t ! i)) \<Longrightarrow> shape4 a b c d t"
  unfolding shape4_def by (metis in_set_conv_nth)

lemma sz1_nth0: "0 < length t \<Longrightarrow> sz1 t = length (t ! 0)"
  by (cases t) (simp_all add: sz1_def)

lemma sz2_nth0: "0 < length t \<Longrightarrow> sz2 t = sz1 (t ! 0)"
  by (cases t) (simp_all add: sz2_def)

lemma sz3_nth0: "0 < length t \<Longrightarrow> sz3 t = sz2 (t ! 0)"
  by (cases t) (simp_all add: sz3_def)

lemma size4_shape4:
  assumes "shape4 a b c d t" "0 < a" "0 < b" "0 < c"
  shows "size4 t = (a, b, c, d)"
proof -
  have 0: "length t = a" using assms by (simp add: shape4_length)
  have 1: "shape3 b c d (t ! 0)" using assms by (simp add: shape4_nth)
  then have 2: "length (t ! 0) = b" "shape2 c d (t ! 0 ! 0)"
    using assms by (simp_all add: shape3_length shape3_nth)
  then have 3: "length (t ! 0 ! 0) = c" "length (t ! 0 ! 0 ! 0) = d"
    using assms by (simp_all add: shape2_length shape2_nth)
  show ?thesis
    using assms 0 2 3 by (simp add: size4_def sz3_nth0 sz2_nth0 sz1_nth0)
qed

text \<open>Transposition of the two axes of a matrix of entries.\<close>

lemma transpose_last2_length: "shape2 a b m \<Longrightarrow> 0 < a \<Longrightarrow> length (transpose_last2 m) = b"
  by (simp add: transpose_last2_def sz1_shape2)

lemma transpose_last2_nth:
  "shape2 a b m \<Longrightarrow> 0 < a \<Longrightarrow> j < b \<Longrightarrow> transpose_last2 m ! j = map (\<lambda>r. r ! j) m"
  by (simp add: transpose_last2_def sz1_shape2)

lemma transpose_last2_nth_nth:
  "shape2 a b m \<Longrightarrow> 0 < a \<Longrightarrow> j < b \<Longrightarrow> i < a \<Longrightarrow> transpose_last2 m ! j ! i = m ! i ! j"
  by (simp add: transpose_last2_nth shape2_length)

lemma transpose_last2_shape2: "shape2 a b m \<Longrightarrow> 0 < a \<Longrightarrow> shape2 b a (transpose_last2 m)"
  by (rule shape2_I) (simp_all add: transpose_last2_length transpose_last2_nth shape2_length)

lemma transpose_last2_shape3:
  assumes "shape3 a b c t" "0 < a"
  shows "shape3 b a c (transpose_last2 t)"
proof (rule shape3_I)
  have s2: "shape2 a b t" using assms by (auto simp add: shape3_def shape2_def)
  show "length (transpose_last2 t) = b" using s2 assms by (simp add: transpose_last2_length)
  fix j assume j: "j < b"
  show "shape2 a c (transpose_last2 t ! j)"
  proof (rule shape2_I)
    show "length (transpose_last2 t ! j) = a"
      using s2 assms j by (simp add: transpose_last2_nth shape2_length)
    fix i assume i: "i < a"
    have "transpose_last2 t ! j ! i = t ! i ! j"
      using s2 assms j i by (simp add: transpose_last2_nth_nth)
    moreover have "length (t ! i ! j) = c"
      using shape3_nth [OF assms(1) i] j by (simp add: shape2_nth)
    ultimately show "length (transpose_last2 t ! j ! i) = c" by simp
  qed
qed

lemma transpose12_shape4:
  "shape4 n a b c t \<Longrightarrow> 0 < a \<Longrightarrow> shape4 n b a c (transpose12 t)"
  by (rule shape4_intro)
     (simp_all add: transpose12_def shape4_length shape4_nth transpose_last2_shape3)

lemma transpose12_nth:
  assumes "shape4 n a b c t" "0 < a" "x < n" "j < b" "i < a"
  shows "transpose12 t ! x ! j ! i = t ! x ! i ! j"
proof -
  have "shape3 a b c (t ! x)" using assms by (simp add: shape4_nth)
  then have "shape2 a b (t ! x)" by (auto simp add: shape3_def shape2_def)
  then show ?thesis
    using assms by (simp add: transpose12_def shape4_length transpose_last2_nth_nth)
qed

text \<open>Repeating each head of a group.\<close>

lemma repeat_interleave_length: "length (repeat_interleave r xs) = r * length xs"
  by (induction xs) (simp_all add: repeat_interleave_def)

lemma repeat_interleave_nth:
  "i < r * length xs \<Longrightarrow> repeat_interleave r xs ! i = xs ! (i div r)"
proof (induction xs arbitrary: i)
  case Nil
  then show ?case by simp
next
  case (Cons x xs)
  have r: "0 < r" using Cons.prems by (cases r) simp_all
  have unf: "repeat_interleave r (x # xs) = replicate r x @ repeat_interleave r xs"
    by (simp add: repeat_interleave_def)
  show ?case
  proof (cases "i < r")
    case True
    then show ?thesis by (simp add: unf nth_append)
  next
    case False
    then have ge: "r \<le> i" by simp
    then have "i - r < r * length xs" using Cons.prems by simp
    from Cons.IH [OF this] have "repeat_interleave r xs ! (i - r) = xs ! ((i - r) div r)" .
    moreover have "i div r = Suc ((i - r) div r)" using ge r by (simp add: le_div_geq)
    ultimately show ?thesis using False by (simp add: unf nth_append)
  qed
qed

lemma matmul_length: "length (matmul a b) = length a"
  by (simp add: matmul_def)

lemma matmul_row_length: "i < length a \<Longrightarrow> length (matmul a b ! i) = sz1 b"
  by (simp add: matmul_def)

lemma matmul_nth:
  "i < length a \<Longrightarrow> j < sz1 b \<Longrightarrow>
   matmul a b ! i ! j = (\<Sum>k\<leftarrow>[0..<length b]. a ! i ! k * b ! k ! j)"
  by (simp add: matmul_def)

text \<open>The bias of a call without mask.\<close>

lemma attn_bias_of_None_nth:
  "i < l \<Longrightarrow> j < s \<Longrightarrow> fst (attn_bias_of l s None) ! i ! j = (if i < j then MInf else Fin 0)"
  by (auto simp add: attn_bias_of_def masked_fill_def logical_not_def tril_ones_def Let_def)

lemma attn_bias_of_None_shape: "shape2 l s (fst (attn_bias_of l s None))"
  by (rule shape2_I)
     (simp_all add: attn_bias_of_def masked_fill_def logical_not_def tril_ones_def Let_def)



text \<open>The weights of one head.\<close>

lemma attn_weight_of_shape:
  assumes "shape2 l e qh" "shape2 s e kh" "shape2 l s ab" "0 < s" "0 < e"
  shows "shape2 l s (attn_weight_of sc ab qh kh)"
proof (rule shape2_I)
  have t: "shape2 e s (transpose_last2 kh)" using assms by (simp add: transpose_last2_shape2)
  have sz: "sz1 (transpose_last2 kh) = s" using t assms by (simp add: sz1_shape2)
  show "length (attn_weight_of sc ab qh kh) = l"
    using assms by (simp add: attn_weight_of_def Let_def matmul_length shape2_length)
  fix i assume "i < l"
  then show "length (attn_weight_of sc ab qh kh ! i) = s"
    using assms sz by (simp add: attn_weight_of_def Let_def matmul_length matmul_row_length
        shape2_length shape2_nth)
qed

lemma attn_weight_of_nth:
  assumes "shape2 l e qh" "shape2 s e kh" "shape2 l s ab" "0 < s" "0 < e" "i < l" "j < s"
  shows "attn_weight_of sc ab qh kh ! i ! j =
           relu_x (xadd (Fin ((\<Sum>d\<leftarrow>[0..<e]. qh ! i ! d * kh ! j ! d) * sc)) (ab ! i ! j))"
proof -
  have t: "shape2 e s (transpose_last2 kh)" using assms by (simp add: transpose_last2_shape2)
  have sz: "sz1 (transpose_last2 kh) = s" using t assms by (simp add: sz1_shape2)
  have len: "length (transpose_last2 kh) = e" using t by (simp add: shape2_length)
  have mm: "matmul qh (transpose_last2 kh) ! i ! j = (\<Sum>d\<leftarrow>[0..<e]. qh ! i ! d * kh ! j ! d)"
  proof -
    have "matmul qh (transpose_last2 kh) ! i ! j =
        (\<Sum>d\<leftarrow>[0..<e]. qh ! i ! d * transpose_last2 kh ! d ! j)"
      using assms sz len by (simp add: matmul_nth shape2_length)
    also have "\<dots> = (\<Sum>d\<leftarrow>[0..<e]. qh ! i ! d * kh ! j ! d)"
      by (rule arg_cong [where f = sum_list], rule map_cong [OF refl])
         (use assms in \<open>simp add: transpose_last2_nth_nth\<close>)
    finally show ?thesis .
  qed
  show ?thesis
    using assms sz mm
    by (simp add: attn_weight_of_def Let_def matmul_length matmul_row_length shape2_length
        shape2_nth)
qed

lemma map2_map2_nth:
  "x < length xs \<Longrightarrow> x < length ys \<Longrightarrow> j < length (xs ! x) \<Longrightarrow> j < length (ys ! x) \<Longrightarrow>
   map2 (map2 f) xs ys ! x ! j = f (xs ! x ! j) (ys ! x ! j)"
  by simp

lemma sdpa_unfold:
  "fst (scaled_dot_product_attention hs q k v amask) =
     transpose12 (map2 (map2 matmul)
       (map2 (map2 (attn_weight_of (1 / real hs)
          (fst (attn_bias_of (sz2 (transpose12 q))
             (sz2 (kv_heads (transpose12 q) (transpose12 k) (transpose12 k))) amask))))
          (transpose12 q) (kv_heads (transpose12 q) (transpose12 k) (transpose12 k)))
       (kv_heads (transpose12 q) (transpose12 k) (transpose12 v)))"
  by (simp add: scaled_dot_product_attention_def Let_def case_prod_beta)

lemma sdpa_mask_unfold:
  "snd (scaled_dot_product_attention hs q k v amask) =
     snd (attn_bias_of (sz2 (transpose12 q))
             (sz2 (kv_heads (transpose12 q) (transpose12 k) (transpose12 k))) amask)"
  by (simp add: scaled_dot_product_attention_def Let_def case_prod_beta)

lemma kv_heads_facts:
  assumes q1: "shape4 B H T E q1" and k1: "shape4 B G S E k1" and t1: "shape4 B G S D t1"
    and pos: "0 < B" "0 < T" "0 < S" "0 < G" "0 < r" and H: "H = G * r"
  shows "shape4 B H S D (kv_heads q1 k1 t1)"
    and "\<And>x h. x < B \<Longrightarrow> h < H \<Longrightarrow> kv_heads q1 k1 t1 ! x ! h = t1 ! x ! (h div r)"
proof -
  have Hp: "0 < H" using pos H by simp
  have sq: "size4 q1 = (B, H, T, E)" using q1 pos Hp by (simp add: size4_shape4)
  have sk: "size4 k1 = (B, G, S, E)" using k1 pos by (simp add: size4_shape4)
  have st: "size4 t1 = (B, G, S, D)" using t1 pos by (simp add: size4_shape4)
  have z: "sz1 q1 = H" "sz1 t1 = G" using sq st by (simp_all add: size4_def)
  have r: "H div G = r" using H pos by simp
  have lt: "length t1 = B" using t1 by (rule shape4_length)
  have t1x: "\<And>x. x < B \<Longrightarrow> shape3 G S D (t1 ! x)" using t1 by (simp add: shape4_nth)
  show "shape4 B H S D (kv_heads q1 k1 t1)"
  proof (cases "size4 q1 \<noteq> size4 k1")
    case True
    show ?thesis
    proof (rule shape4_intro)
      show "length (kv_heads q1 k1 t1) = B" using True lt by (simp add: kv_heads_def)
      fix x assume x: "x < B"
      have e: "kv_heads q1 k1 t1 ! x = repeat_interleave r (t1 ! x)"
        using True x lt z r by (simp add: kv_heads_def)
      show "shape3 H S D (kv_heads q1 k1 t1 ! x)"
      proof (rule shape3_I)
        show "length (kv_heads q1 k1 t1 ! x) = H"
          using t1x [OF x] H by (simp add: e repeat_interleave_length shape3_length mult.commute)
        fix h assume h: "h < H"
        then have hr: "h < r * length (t1 ! x)"
          using t1x [OF x] H by (simp add: shape3_length mult.commute)
        have "h div r < G" using h H pos by (simp add: less_mult_imp_div_less mult.commute)
        then show "shape2 S D (kv_heads q1 k1 t1 ! x ! h)"
          using t1x [OF x] by (simp add: e repeat_interleave_nth [OF hr] shape3_nth)
      qed
    qed
  next
    case False
    then have "H = G \<and> T = S" using sq sk by simp
    then show ?thesis using False t1 by (simp add: kv_heads_def)
  qed
  fix x h assume x: "x < B" and h: "h < H"
  show "kv_heads q1 k1 t1 ! x ! h = t1 ! x ! (h div r)"
  proof (cases "size4 q1 \<noteq> size4 k1")
    case True
    have hr: "h < r * length (t1 ! x)"
      using t1x [OF x] H h by (simp add: shape3_length mult.commute)
    show ?thesis
      using True x lt z r by (simp add: kv_heads_def repeat_interleave_nth [OF hr])
  next
    case False
    then have "H = G" using sq sk by simp
    then have "r = 1" using H pos by simp
    then show ?thesis using False by (simp add: kv_heads_def)
  qed
qed

lemma sdpa_entry:
  assumes q: "shape4 B T H E q" and k: "shape4 B S G E k" and v: "shape4 B S G D v"
    and pos: "0 < T" "0 < S" "0 < G" "0 < E" "0 < r" and H: "H = G * r"
    and ab: "shape2 T S (fst (attn_bias_of T S amask))"
    and x: "x < B" and i: "i < T" and h: "h < H" and d: "d < D"
  shows "fst (scaled_dot_product_attention hs q k v amask) ! x ! i ! h ! d =
           (\<Sum>j\<leftarrow>[0..<S].
              relu_x (xadd (Fin ((\<Sum>e\<leftarrow>[0..<E]. q ! x ! i ! h ! e * k ! x ! j ! (h div r) ! e)
                                  * (1 / real hs)))
                        (fst (attn_bias_of T S amask) ! i ! j))
              * v ! x ! j ! (h div r) ! d)"
    and "shape4 B T H D (fst (scaled_dot_product_attention hs q k v amask))"
proof -
  let ?q1 = "transpose12 q" and ?k1 = "transpose12 k" and ?v1 = "transpose12 v"
  let ?k2 = "kv_heads ?q1 ?k1 ?k1" and ?v2 = "kv_heads ?q1 ?k1 ?v1"
  let ?ab = "fst (attn_bias_of T S amask)"
  let ?W = "map2 (map2 (attn_weight_of (1 / real hs) ?ab)) ?q1 ?k2"
  let ?y = "map2 (map2 matmul) ?W ?v2"
  have B: "0 < B" using x by simp
  have Hp: "0 < H" using h by simp
  have hg: "h div r < G" using h H pos by (simp add: less_mult_imp_div_less mult.commute)
  have q1: "shape4 B H T E ?q1" using q pos by (simp add: transpose12_shape4)
  have k1: "shape4 B G S E ?k1" using k pos by (simp add: transpose12_shape4)
  have v1: "shape4 B G S D ?v1" using v pos by (simp add: transpose12_shape4)
  have k2: "shape4 B H S E ?k2"
    and k2n: "\<And>x h. x < B \<Longrightarrow> h < H \<Longrightarrow> ?k2 ! x ! h = ?k1 ! x ! (h div r)"
    using kv_heads_facts [OF q1 k1 k1 B pos(1,2,3,5) H] by blast+
  have v2: "shape4 B H S D ?v2"
    and v2n: "\<And>x h. x < B \<Longrightarrow> h < H \<Longrightarrow> ?v2 ! x ! h = ?v1 ! x ! (h div r)"
    using kv_heads_facts [OF q1 k1 v1 B pos(1,2,3,5) H] by blast+
  have l: "sz2 ?q1 = T" using size4_shape4 [OF q1 B Hp pos(1)] by (simp add: size4_def)
  have s: "sz2 ?k2 = S" using size4_shape4 [OF k2 B Hp pos(2)] by (simp add: size4_def)
  have res: "fst (scaled_dot_product_attention hs q k v amask) = transpose12 ?y"
    by (simp add: sdpa_unfold l s)
  have lens: "length ?q1 = B" "length ?k2 = B" "length ?v2 = B"
    using q1 k2 v2 by (simp_all add: shape4_length)
  have lens2: "length (?q1 ! x) = H \<and> length (?k2 ! x) = H \<and> length (?v2 ! x) = H"
    if "x < B" for x
    using shape4_nth [OF q1 that] shape4_nth [OF k2 that] shape4_nth [OF v2 that]
    by (simp add: shape3_length)
  have heads: "shape2 T E (?q1 ! x ! h) \<and> shape2 S E (?k2 ! x ! h) \<and> shape2 S D (?v2 ! x ! h)"
    if "x < B" "h < H" for x h
    using shape4_nth [OF q1 that(1)] shape4_nth [OF k2 that(1)] shape4_nth [OF v2 that(1)] that(2)
    by (simp add: shape3_nth)
  have Wn: "\<And>x h. x < B \<Longrightarrow> h < H \<Longrightarrow>
      ?W ! x ! h = attn_weight_of (1 / real hs) ?ab (?q1 ! x ! h) (?k2 ! x ! h)"
    using lens lens2 by (simp add: map2_map2_nth)
  have Wl: "length ?W = B" "\<And>x. x < B \<Longrightarrow> length (?W ! x) = H"
    using lens lens2 by simp_all
  have Wsh: "shape2 T S (?W ! x ! h)" if "x < B" "h < H" for x h
  proof -
    from heads [OF that] have a: "shape2 T E (?q1 ! x ! h)" "shape2 S E (?k2 ! x ! h)"
      by simp_all
    show ?thesis
      unfolding Wn [OF that] by (rule attn_weight_of_shape [OF a ab pos(2) pos(4)])
  qed
  have yn: "\<And>x h. x < B \<Longrightarrow> h < H \<Longrightarrow> ?y ! x ! h = matmul (?W ! x ! h) (?v2 ! x ! h)"
    using lens lens2 Wl by (simp add: map2_map2_nth)
  have szv: "sz1 (?v2 ! x ! h) = D" if "x < B" "h < H" for x h
  proof -
    from heads [OF that] have "shape2 S D (?v2 ! x ! h)" by simp
    then show ?thesis using pos(2) by (rule sz1_shape2)
  qed
  have ysh: "shape4 B H T D ?y"
  proof (rule shape4_intro)
    show "length ?y = B" using lens Wl by simp
    fix x assume x: "x < B"
    show "shape3 H T D (?y ! x)"
    proof (rule shape3_I)
      show "length (?y ! x) = H" using x lens lens2 Wl by simp
      fix h assume h: "h < H"
      show "shape2 T D (?y ! x ! h)"
      proof (rule shape2_I)
        show "length (?y ! x ! h) = T"
          using Wsh [OF x h] by (simp add: yn [OF x h] matmul_length shape2_length)
        fix i assume "i < T"
        then show "length (?y ! x ! h ! i) = D"
          using Wsh [OF x h] szv [OF x h]
          by (simp add: yn [OF x h] matmul_row_length shape2_length)
      qed
    qed
  qed
  show "shape4 B T H D (fst (scaled_dot_product_attention hs q k v amask))"
    using ysh Hp by (simp add: res transpose12_shape4)
  have kk: "\<And>j. j < S \<Longrightarrow> ?k2 ! x ! h ! j = k ! x ! j ! (h div r)"
    using k pos x h hg by (simp add: k2n transpose12_nth)
  have vv: "\<And>j. j < S \<Longrightarrow> ?v2 ! x ! h ! j = v ! x ! j ! (h div r)"
    using v pos x h hg by (simp add: v2n transpose12_nth)
  have qq: "?q1 ! x ! h ! i = q ! x ! i ! h"
    using q pos x h i by (simp add: transpose12_nth)
  show "fst (scaled_dot_product_attention hs q k v amask) ! x ! i ! h ! d =
           (\<Sum>j\<leftarrow>[0..<S].
              relu_x (xadd (Fin ((\<Sum>e\<leftarrow>[0..<E]. q ! x ! i ! h ! e * k ! x ! j ! (h div r) ! e)
                                  * (1 / real hs)))
                        (?ab ! i ! j))
              * v ! x ! j ! (h div r) ! d)"
  proof -
    have "fst (scaled_dot_product_attention hs q k v amask) ! x ! i ! h ! d = ?y ! x ! h ! i ! d"
      using ysh Hp x i h by (simp add: res transpose12_nth)
    also have "\<dots> = (\<Sum>j\<leftarrow>[0..<S]. ?W ! x ! h ! i ! j * ?v2 ! x ! h ! j ! d)"
    proof -
      have vl: "length (?v2 ! x ! h) = S" using heads [OF x h] by (simp add: shape2_def)
      have wl: "i < length (?W ! x ! h)" using Wsh [OF x h] i by (simp add: shape2_def)
      have dl: "d < sz1 (?v2 ! x ! h)" using szv [OF x h] d by simp
      show ?thesis
        unfolding yn [OF x h] matmul_nth [OF wl dl] vl ..
    qed
    also have "\<dots> = (\<Sum>j\<leftarrow>[0..<S].
              relu_x (xadd (Fin ((\<Sum>e\<leftarrow>[0..<E]. q ! x ! i ! h ! e * k ! x ! j ! (h div r) ! e)
                                  * (1 / real hs)))
                        (?ab ! i ! j))
              * v ! x ! j ! (h div r) ! d)"
    proof (rule arg_cong [where f = sum_list], rule map_cong [OF refl])
      fix j assume "j \<in> set [0..<S]"
      then have j: "j < S" by simp
      from heads [OF x h] have a: "shape2 T E (?q1 ! x ! h)" "shape2 S E (?k2 ! x ! h)"
        by simp_all
      have "?W ! x ! h ! i ! j =
          relu_x (xadd (Fin ((\<Sum>e\<leftarrow>[0..<E]. ?q1 ! x ! h ! i ! e * ?k2 ! x ! h ! j ! e) * (1 / real hs)))
             (?ab ! i ! j))"
        unfolding Wn [OF x h] by (rule attn_weight_of_nth [OF a ab pos(2) pos(4) i j])
      then show "?W ! x ! h ! i ! j * ?v2 ! x ! h ! j ! d =
          relu_x (xadd (Fin ((\<Sum>e\<leftarrow>[0..<E]. q ! x ! i ! h ! e * k ! x ! j ! (h div r) ! e)
                                  * (1 / real hs)))
                        (?ab ! i ! j))
              * v ! x ! j ! (h div r) ! d"
        by (simp add: qq kk [OF j] vv [OF j])
    qed
    finally show ?thesis .
  qed
qed

text \<open>
  Claim C1. Queries of shape (B, T, H, E), keys of shape (B, S, G, E) and values of
  shape (B, S, G, D), with \<open>H = G * r\<close> query heads, so that query head \<open>h\<close> reads
  key/value head \<open>h div r\<close>. Every entry of the output of
  \<open>scaled_dot_product_attention\<close> is the sum over the key positions \<open>j\<close> of the weight
  \<open>relu (q \<cdot> k\<^sub>j * (1 / head_size) + bias i j)\<close> times the value entry: the scale is
  \<open>1 / head_size\<close>, the weights are rectified and not normalised. Without a mask the
  bias is \<open>-\<infinity>\<close> at every key position after the query position and 0 elsewhere.
\<close>

theorem attention_relu_scores_causal_bias:
  assumes q: "shape4 B T H E q" and k: "shape4 B S G E k" and v: "shape4 B S G D v"
    and pos: "0 < T" "0 < S" "0 < G" "0 < E" "0 < r" and H: "H = G * r"
    and ab: "shape2 T S (fst (attn_bias_of T S amask))"
    and x: "x < B" and i: "i < T" and h: "h < H" and d: "d < D"
  shows "fst (scaled_dot_product_attention hs q k v amask) ! x ! i ! h ! d =
           (\<Sum>j\<leftarrow>[0..<S].
              relu_x (xadd (Fin ((\<Sum>e\<leftarrow>[0..<E]. q ! x ! i ! h ! e * k ! x ! j ! (h div r) ! e)
                                  * (1 / real hs)))
                        (fst (attn_bias_of T S amask) ! i ! j))
              * v ! x ! j ! (h div r) ! d) \<and>
         fst (scaled_dot_product_attention hs q k v None) ! x ! i ! h ! d =
           (\<Sum>j\<leftarrow>[0..<S].
              relu_x (xadd (Fin ((\<Sum>e\<leftarrow>[0..<E]. q ! x ! i ! h ! e * k ! x ! j ! (h div r) ! e)
                                  * (1 / real hs)))
                        (if i < j then MInf else Fin 0))
              * v ! x ! j ! (h div r) ! d) \<and>
         (\<forall>j<S. fst (attn_bias_of T S None) ! i ! j = (if i < j then MInf else Fin 0))"
proof (intro conjI allI impI)
  show "fst (scaled_dot_product_attention hs q k v amask) ! x ! i ! h ! d =
           (\<Sum>j\<leftarrow>[0..<S].
              relu_x (xadd (Fin ((\<Sum>e\<leftarrow>[0..<E]. q ! x ! i ! h ! e * k ! x ! j ! (h div r) ! e)
                                  * (1 / real hs)))
                        (fst (attn_bias_of T S amask) ! i ! j))
              * v ! x ! j ! (h div r) ! d)"
    by (rule sdpa_entry(1) [OF q k v pos H ab x i h d])
  have "fst (scaled_dot_product_attention hs q k v None) ! x ! i ! h ! d =
           (\<Sum>j\<leftarrow>[0..<S].
              relu_x (xadd (Fin ((\<Sum>e\<leftarrow>[0..<E]. q ! x ! i ! h ! e * k ! x ! j ! (h div r) ! e)
                                  * (1 / real hs)))
                        (fst (attn_bias_of T S None) ! i ! j))
              * v ! x ! j ! (h div r) ! d)"
    by (rule sdpa_entry(1) [OF q k v pos H attn_bias_of_None_shape x i h d])
  also have "\<dots> = (\<Sum>j\<leftarrow>[0..<S].
              relu_x (xadd (Fin ((\<Sum>e\<leftarrow>[0..<E]. q ! x ! i ! h ! e * k ! x ! j ! (h div r) ! e)
                                  * (1 / real hs)))
                        (if i < j then MInf else Fin 0))
              * v ! x ! j ! (h div r) ! d)"
    by (rule arg_cong [where f = sum_list], rule map_cong [OF refl])
       (use i in \<open>simp add: attn_bias_of_None_nth\<close>)
  finally show "fst (scaled_dot_product_attention hs q k v None) ! x ! i ! h ! d =
           (\<Sum>j\<leftarrow>[0..<S].
              relu_x (xadd (Fin ((\<Sum>e\<leftarrow>[0..<E]. q ! x ! i ! h ! e * k ! x ! j ! (h div r) ! e)
                                  * (1 / real hs)))
                        (if i < j then MInf else Fin 0))
              * v ! x ! j ! (h div r) ! d)" .
  fix j assume "j < S"
  then show "fst (attn_bias_of T S None) ! i ! j = (if i < j then MInf else Fin 0)"
    using i by (simp add: attn_bias_of_None_nth)
qed

theorem attention_relu_scores_causal_bias_witness:
  "shape4 1 2 1 2 [[[[1, 2]], [[3, 4 :: real]]]] \<and>
   fst (scaled_dot_product_attention 2 [[[[1, 2]], [[3, 4]]]] [[[[1, 1]], [[2, 1]]]]
          [[[[1, 0]], [[0, 1]]]] None) ! 0 ! 0 ! 0 ! 1 = 0 \<and>
   fst (scaled_dot_product_attention 2 [[[[1, 2]], [[3, 4]]]] [[[[1, 1]], [[2, 1]]]]
          [[[[1, 0]], [[0, 1]]]] None) ! 0 ! 1 ! 0 ! 1 = 5 \<and>
   fst (attn_bias_of 2 2 None) ! 0 ! 1 = MInf"
proof -
  let ?q = "[[[[1, 2]], [[3, 4 :: real]]]]" and ?k = "[[[[1, 1]], [[2, 1 :: real]]]]"
  let ?v = "[[[[1, 0]], [[0, 1 :: real]]]]"
  have sh: "shape4 1 2 1 2 ?q" "shape4 1 2 1 2 ?k" "shape4 1 2 1 2 ?v"
    by (simp_all add: shape4_def shape3_def shape2_def)
  have n: "(0 :: nat) < 2" "(0 :: nat) < 1" "(1 :: nat) = 1 * 1" "(1 :: nat) < 2" by simp_all
  have ab: "shape2 2 2 (fst (attn_bias_of 2 2 None))" by (rule attn_bias_of_None_shape)
  have up: "[0..<2] = [0, 1]" by (simp add: upt_rec)
  from attention_relu_scores_causal_bias
    [OF sh n(1) n(1) n(2) n(1) n(2) n(3) ab n(2) n(1) n(2) n(4), of 2]
  have a: "fst (scaled_dot_product_attention 2 ?q ?k ?v None) ! 0 ! 0 ! 0 ! 1 = 0"
    and c: "fst (attn_bias_of 2 2 None) ! 0 ! 1 = MInf"
    by (simp_all add: up)
  from attention_relu_scores_causal_bias
    [OF sh n(1) n(1) n(2) n(1) n(2) n(3) ab n(2) n(4) n(2) n(4), of 2]
  have b: "fst (scaled_dot_product_attention 2 ?q ?k ?v None) ! 0 ! 1 ! 0 ! 1 = 5"
    by (simp add: up)
  from sh(1) a b c show ?thesis by blast
qed

section \<open>Weight initialisation policy\<close>

lemma init_weights_Embedding:
  "init_weights cfg L (module_of_Embedding n w) (z, p) =
     (Module n Embedding_cls
        [(''weight'', map (\<lambda>i. 0 + general_std cfg * z (p + i)) [0..<length (concat w)])] [],
      (z, p + length (concat w)))"
  by (simp add: init_weights_def init_own_def module_of_Embedding_def normal_fill_def)

lemma init_weights_Linear:
  "init_weights cfg L (module_of_Linear n l) (z, p) =
     (Module n Linear_cls
        ((''weight'', map (\<lambda>i. 0 + general_std cfg * z (p + i)) [0..<length (concat (weight l))]) #
         (case bias l of None \<Rightarrow> [] | Some b \<Rightarrow> [(''bias'', replicate (length b) 0)])) [],
      (z, p + length (concat (weight l))))"
  by (simp add: init_weights_def init_own_def module_of_Linear_def normal_fill_def zeros_fill_def
      isinstance_Linear_def split: option.splits)

lemma init_weights_NormedLinear:
  "init_weights cfg L (module_of_NormedLinear n l) (z, p) =
     (Module n NormedLinear_cls
        ((''weight'', map (\<lambda>i. 0 + general_std cfg * z (p + i)) [0..<length (concat (weight l))]) #
         (case bias l of None \<Rightarrow> [] | Some b \<Rightarrow> [(''bias'', replicate (length b) 0)]) @
         [(''scale'', [scale l])]) [],
      (z, p + length (concat (weight l))))"
  by (simp add: init_weights_def init_own_def module_of_NormedLinear_def normal_fill_def zeros_fill_def
      isinstance_Linear_def split: option.splits)

lemma init_weights_ParamHeaveside:
  "init_weights cfg L (module_of_ParamHeaveside n ph) g = (module_of_ParamHeaveside n ph, g)"
  by (cases g) (simp add: init_weights_def init_own_def module_of_ParamHeaveside_def isinstance_Linear_def)


lemma apply_fn_leaf: "apply_fn fn (Module n c ps []) g = fn (Module n c ps []) g"
  by (cases "fn (Module n c ps []) g") simp

lemma apply_init_Linear:
  "apply_fn (init_weights cfg L) (module_of_Linear n l) (z, p) =
     init_weights cfg L (module_of_Linear n l) (z, p)"
  by (simp add: module_of_Linear_def apply_fn_leaf)

lemma apply_init_NormedLinear:
  "apply_fn (init_weights cfg L) (module_of_NormedLinear n l) (z, p) =
     init_weights cfg L (module_of_NormedLinear n l) (z, p)"
  by (simp add: module_of_NormedLinear_def apply_fn_leaf)

lemma apply_init_ParamHeaveside:
  "apply_fn (init_weights cfg L) (module_of_ParamHeaveside n ph) g = (module_of_ParamHeaveside n ph, g)"
  using init_weights_ParamHeaveside [of cfg L n ph g]
  by (simp add: module_of_ParamHeaveside_def apply_fn_leaf)

lemma apply_init_CausalSelfAttention:
  "apply_fn (init_weights cfg L) (module_of_CausalSelfAttention n a) (z, p) =
     (let na = length (concat (weight (attn a))); np = length (concat (weight (proj a))) in
      (Module n CausalSelfAttention_cls []
        [Module ''attn'' Linear_cls
           ((''weight'', map (\<lambda>i. 0 + general_std cfg * z (p + i)) [0..<na]) #
            (case bias (attn a) of None \<Rightarrow> [] | Some b \<Rightarrow> [(''bias'', replicate (length b) 0)])) [],
         module_of_ParamHeaveside ''encoder_input'' (encoder_input a),
         module_of_ParamHeaveside ''encoder_k'' (encoder_k a),
         module_of_ParamHeaveside ''encoder_q'' (encoder_q a),
         module_of_ParamHeaveside ''encoder_output'' (encoder_output a),
         Module ''proj'' NormedLinear_cls
           ((''weight'', map (\<lambda>i. 0 + proj_std cfg L * z (p + na + np + i)) [0..<np]) #
            (case bias (proj a) of None \<Rightarrow> [] | Some b \<Rightarrow> [(''bias'', replicate (length b) 0)]) @
            [(''scale'', [scale (proj a)])]) []],
       (z, p + na + np + np)))"
  apply (simp add: module_of_CausalSelfAttention_def apply_init_Linear apply_init_NormedLinear
      apply_init_ParamHeaveside init_weights_Linear init_weights_NormedLinear Let_def)
  apply (simp add: init_weights_def init_own_def isinstance_Linear_def normal_fill_def
      module_of_ParamHeaveside_def split: option.splits)
  done


lemma apply_init_GptNeoxMLP:
  "apply_fn (init_weights cfg L) (module_of_GptNeoxMLP n m) (z, p) =
     (let nf = length (concat (weight (fc m))); np = length (concat (weight (mlp_proj m))) in
      (Module n GptNeoxMLP_cls []
        [Module ''fc'' Linear_cls
           ((''weight'', map (\<lambda>i. 0 + general_std cfg * z (p + i)) [0..<nf]) #
            (case bias (fc m) of None \<Rightarrow> [] | Some b \<Rightarrow> [(''bias'', replicate (length b) 0)])) [],
         module_of_ParamHeaveside ''act2'' (act2 m),
         module_of_ParamHeaveside ''act1'' (act1 m),
         Module ''proj'' NormedLinear_cls
           ((''weight'', map (\<lambda>i. 0 + general_std cfg * z (p + nf + i)) [0..<np]) #
            (case bias (mlp_proj m) of None \<Rightarrow> [] | Some b \<Rightarrow> [(''bias'', replicate (length b) 0)]) @
            [(''scale'', [scale (mlp_proj m)])]) []],
       (z, p + nf + np)))"
  apply (simp add: module_of_GptNeoxMLP_def apply_init_Linear apply_init_NormedLinear
      apply_init_ParamHeaveside init_weights_Linear init_weights_NormedLinear Let_def)
  apply (simp add: init_weights_def init_own_def isinstance_Linear_def normal_fill_def
      module_of_ParamHeaveside_def split: option.splits)
  done

lemma length_concat_Linear_init:
  "length (concat (map (\<lambda>r. map (g r) [0..<a]) [0..<b])) = b * a"
  by (simp add: length_concat comp_def sum_list_triv)

text \<open>
  Claim C9 as stated fails. In the small model (embedding width 2), with every sample
  equal to 1 and \<open>n_layer = 2\<close>: the general initialisation gives the attention output
  projection the entries \<open>sqrt (1 / 5)\<close>; after the whole policy its entries are
  \<open>1 / sqrt 2 / 2\<close>, a new draw with that standard deviation, and not the general
  entries rescaled by \<open>1 / sqrt 2 / 2\<close>.
\<close>

theorem attention_projection_redrawn_counterexample:
  "parameter (fst (apply_fn (init_weights example_config 2)
       (module_of_NormedLinear ''proj'' (proj example_attention)) (\<lambda>i. 1, 12))) ''weight''
     = Some (replicate 4 (sqrt (1 / 5))) \<and>
   parameter (fst (apply_fn (init_weights example_config 2)
       (module_of_CausalSelfAttention ''attn'' example_attention) (\<lambda>i. 1, 0))) ''proj.weight''
     = Some (replicate 4 (1 / sqrt 2 / 2)) \<and>
   replicate 4 (1 / sqrt 2 / 2) \<noteq> map (\<lambda>w. 1 / sqrt 2 / 2 * w) (replicate 4 (sqrt (1 / 5)))"
proof -
  have up: "[0..<2] = [0, 1]" by (simp add: upt_rec)
  have w: "weight (proj example_attention) = [[1, 1 / 2], [1 / 2, 1]]"
    "bias (proj example_attention) = None"
    by (simp_all add: example_attention_def CausalSelfAttention_init_def NormedLinear_init_def
        Linear_init_def example_values_def example_config_def Let_def Linear.extend_def up)
  have wa: "length (concat (weight (attn example_attention))) = 12"
    "bias (attn example_attention) = None"
    by (simp_all add: example_attention_def CausalSelfAttention_init_def
        Linear_init_def example_config_def Let_def length_concat_Linear_init)
  have g: "general_std example_config = sqrt (1 / 5)"
    by (simp add: general_std_def example_config_def)
  have ps: "proj_std example_config 2 = 1 / sqrt 2 / 2"
    by (simp add: proj_std_def example_config_def)
  have n4: "replicate 4 x = [x, x, x, x]" for x :: real
    by (simp add: numeral_eq_Suc)
  have a: "parameter (fst (apply_fn (init_weights example_config 2)
       (module_of_NormedLinear ''proj'' (proj example_attention)) (\<lambda>i. 1, 12))) ''weight''
     = Some (replicate 4 (sqrt (1 / 5)))"
    by (simp add: apply_init_NormedLinear init_weights_NormedLinear parameter_def w g n4)
  have b: "parameter (fst (apply_fn (init_weights example_config 2)
       (module_of_CausalSelfAttention ''attn'' example_attention) (\<lambda>i. 1, 0))) ''proj.weight''
     = Some (replicate 4 (1 / sqrt 2 / 2))"
    by (simp add: apply_init_CausalSelfAttention parameter_def w wa ps n4 Let_def
        module_of_ParamHeaveside_def)
  have c: "replicate 4 (1 / sqrt 2 / 2) \<noteq> map (\<lambda>w. 1 / sqrt 2 / 2 * w) (replicate 4 (sqrt (1 / 5)))"
    by (simp add: n4)
  from a b c show ?thesis by blast
qed

text \<open>
  Claim C9, amended. On an embedding, the policy draws the weight from the normal
  distribution with mean 0 and standard deviation \<open>sqrt (2 / 5 / n_embd)\<close> (each entry
  is that deviation times a fresh sample); on a linear layer it draws the weight the
  same way and sets a bias, when there is one, to zeros. Applied to an attention block
  (children first, then the block), it gives the packed projection \<open>attn\<close> the general
  draw and, after the general draw of the output projection \<open>proj\<close>, draws the weight
  of \<open>proj\<close> again, from the normal distribution with mean 0 and standard deviation
  \<open>1 / sqrt n_embd / n_layer\<close>: the entries are that deviation times the samples that
  follow those of the general draws.
\<close>

theorem init_weights_policy:
  "init_weights cfg L (module_of_Embedding n w) (z, p) =
     (Module n Embedding_cls
        [(''weight'', map (\<lambda>i. 0 + sqrt (2 / 5 / real (n_embd cfg)) * z (p + i))
                        [0..<length (concat w)])] [],
      (z, p + length (concat w))) \<and>
   parameter (fst (init_weights cfg L (module_of_Linear n l) (z, p))) ''weight'' =
     Some (map (\<lambda>i. 0 + sqrt (2 / 5 / real (n_embd cfg)) * z (p + i))
             [0..<length (concat (weight l))]) \<and>
   parameter (fst (init_weights cfg L (module_of_Linear n l) (z, p))) ''bias'' =
     map_option (\<lambda>b. replicate (length b) 0) (bias l) \<and>
   parameter (fst (apply_fn (init_weights cfg L) (module_of_CausalSelfAttention n a) (z, p)))
       ''attn.weight'' =
     Some (map (\<lambda>i. 0 + sqrt (2 / 5 / real (n_embd cfg)) * z (p + i))
             [0..<length (concat (weight (attn a)))]) \<and>
   parameter (fst (apply_fn (init_weights cfg L) (module_of_CausalSelfAttention n a) (z, p)))
       ''proj.weight'' =
     Some (map (\<lambda>i. 0 + 1 / sqrt (real (n_embd cfg)) / real L *
                   z (p + length (concat (weight (attn a))) + length (concat (weight (proj a))) + i))
             [0..<length (concat (weight (proj a)))]) \<and>
   snd (apply_fn (init_weights cfg L) (module_of_CausalSelfAttention n a) (z, p)) =
     (z, p + length (concat (weight (attn a))) + length (concat (weight (proj a)))
           + length (concat (weight (proj a))))"
proof (intro conjI)
  show "init_weights cfg L (module_of_Embedding n w) (z, p) =
     (Module n Embedding_cls
        [(''weight'', map (\<lambda>i. 0 + sqrt (2 / 5 / real (n_embd cfg)) * z (p + i))
                        [0..<length (concat w)])] [],
      (z, p + length (concat w)))"
    by (simp add: init_weights_Embedding general_std_def)
  show "parameter (fst (init_weights cfg L (module_of_Linear n l) (z, p))) ''weight'' =
     Some (map (\<lambda>i. 0 + sqrt (2 / 5 / real (n_embd cfg)) * z (p + i))
             [0..<length (concat (weight l))])"
    by (simp add: init_weights_Linear parameter_def general_std_def)
  show "parameter (fst (init_weights cfg L (module_of_Linear n l) (z, p))) ''bias'' =
     map_option (\<lambda>b. replicate (length b) 0) (bias l)"
    by (simp add: init_weights_Linear parameter_def split: option.splits)
  show "parameter (fst (apply_fn (init_weights cfg L) (module_of_CausalSelfAttention n a) (z, p)))
       ''attn.weight'' =
     Some (map (\<lambda>i. 0 + sqrt (2 / 5 / real (n_embd cfg)) * z (p + i))
             [0..<length (concat (weight (attn a)))])"
    by (simp add: apply_init_CausalSelfAttention parameter_def general_std_def Let_def)
  show "parameter (fst (apply_fn (init_weights cfg L) (module_of_CausalSelfAttention n a) (z, p)))
       ''proj.weight'' =
     Some (map (\<lambda>i. 0 + 1 / sqrt (real (n_embd cfg)) / real L *
                   z (p + length (concat (weight (attn a))) + length (concat (weight (proj a))) + i))
             [0..<length (concat (weight (proj a)))])"
    by (simp add: apply_init_CausalSelfAttention parameter_def proj_std_def Let_def
        module_of_ParamHeaveside_def split: option.splits)
  show "snd (apply_fn (init_weights cfg L) (module_of_CausalSelfAttention n a) (z, p)) =
     (z, p + length (concat (weight (attn a))) + length (concat (weight (proj a)))
           + length (concat (weight (proj a))))"
    by (simp add: apply_init_CausalSelfAttention Let_def)
qed

text \<open>
  The feed-forward block of the model, \<open>GptNeoxMLP\<close>, is none of the classes the loop of
  the policy names: its output projection keeps the general draw, whatever
  \<open>n_layer\<close> is.
\<close>

lemma feed_forward_projection_keeps_general_draw:
  "parameter (fst (apply_fn (init_weights cfg L) (module_of_GptNeoxMLP n m) (z, p))) ''proj.weight'' =
     Some (map (\<lambda>i. 0 + sqrt (2 / 5 / real (n_embd cfg)) * z (p + length (concat (weight (fc m))) + i))
             [0..<length (concat (weight (mlp_proj m)))])"
  by (simp add: apply_init_GptNeoxMLP parameter_def general_std_def Let_def
      module_of_ParamHeaveside_def split: option.splits)

section \<open>Incremental decoding agrees with the full-sequence call\<close>








lemma sdpa_mask_None [simp]: "snd (scaled_dot_product_attention hs q k v None) = None"
  by (simp add: sdpa_mask_unfold attn_bias_of_def Let_def)





























lemma select_pos_map: "select_pos i (map (map f) x) = map (map f) (select_pos i x)"
  if "\<forall>r\<in>set x. i < length r"
  using that by (simp add: select_pos_def)



















lemma hidden_all: "hidden hs rope x0 (length hs) = fold (\<lambda>blk x. block_full blk rope x) hs x0"
  by (simp add: hidden_def)



text \<open>The two modes of \<open>QuantGPT_forward\<close> once the assertions hold.\<close>

lemma rope_tables_case:
  "(case rope_cache (if rope_cache s = None
        then s\<lparr>rope_cache := Some (QuantGPT_build_rope_cache s)\<rparr> else s) of
      Some r \<Rightarrow> r | None \<Rightarrow> ([], [])) = rope_tables s"
  by (cases "rope_cache s") (simp_all add: rope_tables_def)



















end
